theory Spec2Isabelle
  imports Complex_Main
begin

section \<open>Values and errors\<close>

text \<open>
  Identifiers are the strings the database stores (\<open>VARCHAR(191)\<close> primary keys).
  Times are milliseconds since the epoch, as \<open>Date\<close> values are.
  JavaScript numbers are modelled as reals: sums, comparisons and the rounding below are the
  exact ones, where the code computes with doubles. A quotient whose ten-thousandfold lies
  within a double's rounding error of a half can therefore round the other way in the code
  (57 of 800 is 7.12 there and 7.13 here). A number that is \<open>NaN\<close> or an infinity is not a
  real: where one can arise it is the \<open>None\<close> of an option.
\<close>

type_synonym ident = string
type_synonym time = int

text \<open>
  A JSON value as it arrives in a request body and is stored in the \<open>selectedAnswer\<close> and
  \<open>correctAnswer\<close> columns (\<open>JSON NULL\<close>). An object is the list of its members in the
  order of the text.
\<close>

datatype jsvalue =
  JNull | JBool bool | JNum real | JStr string | JArr "jsvalue list"
  | JObj "(string \<times> jsvalue) list"

text \<open>
  \<open>ApiError.badRequest\<close> (400), \<open>ApiError.forbidden\<close> (403), \<open>ApiError.notFound\<close> (404) with
  their messages; \<open>TypeError\<close> is the runtime's exception for a method call on a value that has
  no such method or a property read on \<open>null\<close>; \<open>ForeignKeyError\<close> is the failure of a write
  that the schema's foreign keys reject; \<open>NonFiniteNumber\<close> marks the place where a number
  that is \<open>NaN\<close> or an infinity would be used.
\<close>

datatype error =
  BadRequest string | Forbidden string | NotFound string | TypeError | ForeignKeyError
  | NonFiniteNumber

text \<open>
  The built-ins of the JavaScript runtime that the code calls and whose full definition
  (number formatting, numeric-literal parsing, Unicode case mapping and white space, the
  local time zone) is not part of the repository. They are parameters of the model: every
  theorem below that has a variable for the runtime holds for each runtime.
  \<open>stringToNumber\<close> returns \<open>None\<close> for a string that converts to \<open>NaN\<close> or to an infinity.
  \<open>localTime\<close> gives the local wall-clock time value of an instant, \<open>utcTime\<close> the instant
  of a local time value.
\<close>

record js_runtime =
  numberToString :: "real \<Rightarrow> string"
  stringToNumber :: "string \<Rightarrow> real option"
  toLowerCase :: "string \<Rightarrow> string"
  trim :: "string \<Rightarrow> string"
  localTime :: "time \<Rightarrow> int"
  utcTime :: "int \<Rightarrow> time"

text \<open>\<open>Array.prototype.join\<close> with the default separator.\<close>

fun js_join :: "string list \<Rightarrow> string" where
  "js_join [] = []"
| "js_join [x] = x"
| "js_join (x # y # ys) = x @ '','' @ js_join (y # ys)"

text \<open>The results of a list of evaluations made from left to right: the first exception,
  or all the values.\<close>

fun allResults :: "(error + 'a) list \<Rightarrow> error + 'a list" where
  "allResults [] = Inr []"
| "allResults (Inl e # rs) = Inl e"
| "allResults (Inr v # rs) = (case allResults rs of Inl e \<Rightarrow> Inl e | Inr vs \<Rightarrow> Inr (v # vs))"

text \<open>The value of the member \<open>k\<close> that an object parsed from JSON has as its own property:
  the last one of that name.\<close>

definition ownProperty :: "(string \<times> jsvalue) list \<Rightarrow> string \<Rightarrow> jsvalue option" where
  "ownProperty members k = map_of (rev members) k"

text \<open>
  \<open>String(v)\<close>, which is also \<open>v.toString()\<close> for every value other than \<open>null\<close>. An array
  prints its elements joined by commas, a \<open>null\<close> element as the empty string. An object
  prints as \<open>[object Object]\<close> through the inherited \<open>toString\<close>; a member named \<open>toString\<close>
  hides that method and, being data, cannot be called: a TypeError.
\<close>

fun js_String :: "js_runtime \<Rightarrow> jsvalue \<Rightarrow> error + string" where
  "js_String rt JNull = Inr ''null''"
| "js_String rt (JBool b) = Inr (if b then ''true'' else ''false'')"
| "js_String rt (JNum r) = Inr (numberToString rt r)"
| "js_String rt (JStr s) = Inr s"
| "js_String rt (JArr xs) =
     (case allResults (map (\<lambda>x. case x of JNull \<Rightarrow> Inr [] | _ \<Rightarrow> js_String rt x) xs) of
        Inl e \<Rightarrow> Inl e
      | Inr strs \<Rightarrow> Inr (js_join strs))"
| "js_String rt (JObj members) =
     (if ownProperty members ''toString'' \<noteq> None then Inl TypeError
      else Inr ''[object Object]'')"

text \<open>The truth value of \<open>v\<close> in a condition or under \<open>||\<close>.\<close>

fun truthy :: "jsvalue \<Rightarrow> bool" where
  "truthy JNull = False"
| "truthy (JBool b) = b"
| "truthy (JNum r) = (r \<noteq> 0)"
| "truthy (JStr s) = (s \<noteq> [])"
| "truthy (JArr xs) = True"
| "truthy (JObj members) = True"

text \<open>\<open>Number(v)\<close>; \<open>None\<close> is \<open>NaN\<close> or an infinity. An array or an object is converted
  through its string.\<close>

fun js_Number :: "js_runtime \<Rightarrow> jsvalue \<Rightarrow> error + real option" where
  "js_Number rt JNull = Inr (Some 0)"
| "js_Number rt (JBool b) = Inr (Some (if b then 1 else 0))"
| "js_Number rt (JNum r) = Inr (Some r)"
| "js_Number rt (JStr s) = Inr (stringToNumber rt s)"
| "js_Number rt v =
     (case js_String rt v of Inl e \<Rightarrow> Inl e | Inr s \<Rightarrow> Inr (stringToNumber rt s))"

text \<open>
  The comparison \<open>Array.prototype.includes\<close> makes: primitives by value, arrays and objects
  by reference, so that one parsed from JSON equals no element of another array.
\<close>

fun sameValueZero :: "jsvalue \<Rightarrow> jsvalue \<Rightarrow> bool" where
  "sameValueZero (JArr xs) w = False"
| "sameValueZero (JObj xs) w = False"
| "sameValueZero v (JArr ys) = False"
| "sameValueZero v (JObj ys) = False"
| "sameValueZero v w = (v = w)"

definition js_includes :: "jsvalue list \<Rightarrow> jsvalue \<Rightarrow> bool" where
  "js_includes xs v = list_ex (sameValueZero v) xs"

section \<open>Questions and the correctness check\<close>

record question_option =
  o_id :: ident
  o_text :: string
  o_isCorrect :: bool

record question =
  q_id :: ident
  q_questionType :: string
  q_options :: "question_option list"
  q_correctAnswer :: jsvalue
  q_marks :: real
  q_negativeMarks :: real

text \<open>\<open>a?.toString ? a.toString() : a\<close> for an element of the selected array: \<open>null\<close>
  stays, an object whose own \<open>toString\<close> member is false in a condition stays, every other
  value becomes its string.\<close>

definition selectedIdOf :: "js_runtime \<Rightarrow> jsvalue \<Rightarrow> error + jsvalue" where
  "selectedIdOf rt a =
     (case a of
        JNull \<Rightarrow> Inr JNull
      | JObj members \<Rightarrow>
          (case ownProperty members ''toString'' of
             None \<Rightarrow> Inr (JStr ''[object Object]'')
           | Some p \<Rightarrow> if truthy p then Inl TypeError else Inr a)
      | _ \<Rightarrow> (case js_String rt a of Inl e \<Rightarrow> Inl e | Inr s \<Rightarrow> Inr (JStr s)))"

text \<open>\<open>String(v || '')\<close>\<close>

definition stringOrEmpty :: "js_runtime \<Rightarrow> jsvalue \<Rightarrow> error + string" where
  "stringOrEmpty rt v = (if truthy v then js_String rt v else Inr [])"

text \<open>
  \<open>checkAnswer(question, selectedAnswer)\<close> of the attempt service. The \<open>switch\<close> on the
  question type becomes a chain of tests in the order of its cases; operands are evaluated
  from left to right, and the first exception ends the call.
\<close>

definition checkAnswer :: "js_runtime \<Rightarrow> question \<Rightarrow> jsvalue \<Rightarrow> error + bool" where
  "checkAnswer rt question selectedAnswer =
    (let qt = q_questionType question; options = q_options question in
     if qt = ''mcq'' \<or> qt = ''multiple_choice'' \<or> qt = ''true_false'' then
       (case (if options \<noteq> [] then find o_isCorrect options else None) of
          Some correctOption \<Rightarrow>
            (case (case selectedAnswer of
                     JNull \<Rightarrow> Inr JNull
                   | _ \<Rightarrow> (case js_String rt selectedAnswer of
                             Inl e \<Rightarrow> Inl e
                           | Inr s \<Rightarrow> Inr (if s \<noteq> [] then JStr s else selectedAnswer))) of
               Inl e \<Rightarrow> Inl e
             | Inr selectedId \<Rightarrow>
                 (let correctId = o_id correctOption
                  in if truthy selectedId \<and> correctId \<noteq> []
                     then Inr (selectedId = JStr correctId)
                     else Inr (selectedAnswer = JStr (o_text correctOption))))
        | None \<Rightarrow>
            (case stringOrEmpty rt selectedAnswer of
               Inl e \<Rightarrow> Inl e
             | Inr s \<Rightarrow>
                 (case stringOrEmpty rt (q_correctAnswer question) of
                    Inl e \<Rightarrow> Inl e
                  | Inr c \<Rightarrow> Inr (trim rt (toLowerCase rt s) = trim rt (toLowerCase rt c)))))
     else if qt = ''multiple'' \<or> qt = ''multiple_select'' then
       (if options \<noteq> [] then
          (let correctOptionIds = map o_id (filter o_isCorrect options) in
           case selectedAnswer of
             JArr elems \<Rightarrow>
               (case allResults (map (selectedIdOf rt) elems) of
                  Inl e \<Rightarrow> Inl e
                | Inr selectedIds \<Rightarrow>
                    Inr (length selectedIds = length correctOptionIds \<and>
                         list_all (\<lambda>i. case i of JStr s \<Rightarrow> s \<in> set correctOptionIds
                                               | _ \<Rightarrow> False) selectedIds))
           | _ \<Rightarrow> Inr False)
        else
          (case (selectedAnswer, q_correctAnswer question) of
             (JArr elems, JArr correct) \<Rightarrow>
               Inr (length elems = length correct \<and> list_all (js_includes correct) elems)
           | _ \<Rightarrow> Inr False))
     else if qt = ''numerical'' then
       (case js_Number rt selectedAnswer of
          Inl e \<Rightarrow> Inl e
        | Inr x \<Rightarrow>
            (case js_Number rt (q_correctAnswer question) of
               Inl e \<Rightarrow> Inl e
             | Inr y \<Rightarrow>
                 (case (x, y) of
                    (Some a, Some b) \<Rightarrow> Inr (\<bar>a - b\<bar> < 1 / 1000)
                  | _ \<Rightarrow> Inr False)))
     else if qt = ''short_answer'' then
       (case selectedAnswer of
          JStr s \<Rightarrow>
            (case q_correctAnswer question of
               JStr c \<Rightarrow> Inr (trim rt (toLowerCase rt s) = trim rt (toLowerCase rt c))
             | _ \<Rightarrow> Inl TypeError)
        | _ \<Rightarrow> Inl TypeError)
     else Inr False)"

section \<open>Percentage and grade\<close>

text \<open>\<open>Math.round\<close>: the nearest integer, a tie towards \<open>+\<infinity>\<close>.\<close>

definition Math_round :: "real \<Rightarrow> real" where
  "Math_round x = of_int \<lfloor>x + 1 / 2\<rfloor>"

text \<open>The quotient \<open>a / b\<close> of two numbers. By zero it is \<open>NaN\<close> or an infinity, and so is
  everything computed from it: \<open>None\<close>.\<close>

definition js_divide :: "real \<Rightarrow> real \<Rightarrow> real option" where
  "js_divide a b = (if b = 0 then None else Some (a / b))"

text \<open>\<open>calculatePercentage(value, total)\<close> of the helpers.\<close>

definition calculatePercentage :: "real \<Rightarrow> real \<Rightarrow> real option" where
  "calculatePercentage v tot =
     (if tot = 0 then Some 0
      else (case js_divide v tot of
              None \<Rightarrow> None
            | Some ratio \<Rightarrow> Some (Math_round (ratio * 10000) / 100)))"

text \<open>\<open>calculateGrade(percentage)\<close> of the attempt service.\<close>

definition calculateGrade :: "real \<Rightarrow> string" where
  "calculateGrade percentage =
     (if percentage \<ge> 90 then ''A+''
      else if percentage \<ge> 80 then ''A''
      else if percentage \<ge> 70 then ''B''
      else if percentage \<ge> 60 then ''C''
      else if percentage \<ge> 50 then ''D''
      else ''F'')"

section \<open>The stored data\<close>

datatype exam_status = Draft | Published | Active | Completed | Archived

datatype assignment_mode = BySection | ByDepartment | ByIndividual | AllStudents

datatype attempt_status = Started | In_progress | Submitted | Auto_submitted | Graded

record exam =
  e_id :: ident
  e_title :: string
  e_createdById :: ident
  e_institutionId :: "ident option"
  e_courseId :: "ident option"
  e_assignmentMode :: assignment_mode
  e_durationMinutes :: int
  e_totalMarks :: real
  e_passingPercentage :: real
  e_negativeMarking :: bool
  e_negativeMarkValue :: real
  e_shuffleQuestions :: bool
  e_shuffleOptions :: bool
  e_maxAttempts :: int
  e_status :: exam_status
  e_startTime :: "time option"
  e_endTime :: "time option"

record user =
  u_id :: ident
  u_sectionId :: "ident option"
  u_departmentId :: "ident option"
  u_institutionId :: "ident option"

record attempt =
  at_id :: ident
  at_examId :: ident
  at_studentId :: ident
  at_attemptNumber :: nat
  at_status :: attempt_status
  at_startedAt :: time
  at_submittedAt :: "time option"
  at_totalScore :: real
  at_maxScore :: "real option"
  at_percentage :: "real option"
  at_correctAnswers :: nat
  at_wrongAnswers :: nat
  at_skipped :: nat
  at_timeTaken :: "int option"
  at_grade :: "string option"
  at_passed :: "bool option"

text \<open>
  A row of \<open>student_answers\<close>. The row is identified by its unique key
  \<open>(attemptId, questionId)\<close>; the generated row id, which stands for the same row, is left out.
  A \<open>NULL\<close> \<open>selectedAnswer\<close> is \<open>JNull\<close>.
\<close>

record answer =
  an_attemptId :: ident
  an_questionId :: ident
  an_selectedAnswer :: jsvalue
  an_isCorrect :: "bool option"
  an_isAnswered :: bool
  an_isMarkedForReview :: bool
  an_marksAwarded :: real
  an_timeSpent :: "int option"
  an_answeredAt :: "time option"

text \<open>What \<open>getExamById\<close> returns and caches: the exam, its assigned sections and
  departments, and its questions.\<close>

record exam_view =
  v_exam :: exam
  v_assignedSections :: "ident list"
  v_assignedDepartments :: "ident list"
  v_questionCount :: nat
  v_questions :: "question list"

text \<open>
  The tables the two services read and write, rows in the order the database returns them, and
  the exam-details cache. The active-attempt cache entry and the activity log are only written
  by the operations below and are left out.
\<close>

record db =
  exams :: "ident \<rightharpoonup> exam"
  questions :: "ident \<rightharpoonup> question"
  examQuestions :: "(ident \<times> ident) list"
  examSections :: "(ident \<times> ident) list"
  examDepartments :: "(ident \<times> ident) list"
  examStudents :: "(ident \<times> ident) list"
  examAssignments :: "(ident \<times> ident) list"
  users :: "ident \<rightharpoonup> user"
  enrollments :: "(ident \<times> ident \<times> string) list"
  attempts :: "attempt list"
  answers :: "answer list"
  examCache :: "ident \<rightharpoonup> exam_view"

section \<open>The attempt service\<close>

text \<open>\<open>status: { in: ['started', 'in_progress'] }\<close>\<close>

definition isActiveStatus :: "attempt_status \<Rightarrow> bool" where
  "isActiveStatus s = (s = Started \<or> s = In_progress)"

text \<open>\<open>prisma.examAttempt.findUnique({ where: { id } })\<close>\<close>

definition findAttempt :: "db \<Rightarrow> ident \<Rightarrow> attempt option" where
  "findAttempt d attemptId = find (\<lambda>a. at_id a = attemptId) (attempts d)"

text \<open>\<open>prisma.examAttempt.findFirst\<close> on the id, the student and an active status.\<close>

definition findActiveAttempt :: "db \<Rightarrow> ident \<Rightarrow> ident \<Rightarrow> attempt option" where
  "findActiveAttempt d attemptId studentId =
     find (\<lambda>a. at_id a = attemptId \<and> at_studentId a = studentId \<and> isActiveStatus (at_status a))
       (attempts d)"

text \<open>\<open>prisma.examAttempt.update({ where: { id }, data })\<close>, the change given as a function.\<close>

definition updateAttempt :: "ident \<Rightarrow> (attempt \<Rightarrow> attempt) \<Rightarrow> attempt list \<Rightarrow> attempt list" where
  "updateAttempt attemptId f rows = map (\<lambda>a. if at_id a = attemptId then f a else a) rows"

text \<open>\<open>prisma.studentAnswer.update({ where: { id: answer.id }, data })\<close>\<close>

definition updateAnswer :: "answer \<Rightarrow> (answer \<Rightarrow> answer) \<Rightarrow> answer list \<Rightarrow> answer list" where
  "updateAnswer a f rows =
     map (\<lambda>r. if an_attemptId r = an_attemptId a \<and> an_questionId r = an_questionId a
               then f r else r) rows"

text \<open>The endTime of an attempt: \<open>endTime.setMinutes(endTime.getMinutes() + durationMinutes)\<close>
  on a copy of \<open>startedAt\<close> moves the local wall-clock time on by the exam's minutes and
  takes the instant of the result.\<close>

definition attemptEndTime :: "js_runtime \<Rightarrow> attempt \<Rightarrow> exam \<Rightarrow> time" where
  "attemptEndTime rt a e =
     utcTime rt (localTime rt (at_startedAt a) + e_durationMinutes e * 60000)"

record totals =
  t_totalScore :: real
  t_correctAnswers :: nat
  t_wrongAnswers :: nat
  t_skipped :: nat

text \<open>
  The grading loop of \<open>finalizeAttempt\<close>, over the answers read before the loop (each with
  its question), writing each answer row as it goes. An exception of \<open>checkAnswer\<close> or of a
  read of the missing exam leaves the rows written so far.
\<close>

fun gradeAnswers ::
  "js_runtime \<Rightarrow> exam option \<Rightarrow> (ident \<rightharpoonup> question) \<Rightarrow> answer list \<Rightarrow> answer list \<Rightarrow> totals
    \<Rightarrow> answer list \<times> (error + totals)" where
  "gradeAnswers rt ex qs [] rows acc = (rows, Inr acc)"
| "gradeAnswers rt ex qs (a # rest) rows acc =
     (case qs (an_questionId a) of
        None \<Rightarrow> gradeAnswers rt ex qs rest rows acc
      | Some question \<Rightarrow>
          if \<not> an_isAnswered a \<or> an_selectedAnswer a = JNull then
            gradeAnswers rt ex qs rest
              (updateAnswer a (\<lambda>r. r\<lparr>an_isCorrect := Some False, an_marksAwarded := 0\<rparr>) rows)
              (acc\<lparr>t_skipped := t_skipped acc + 1\<rparr>)
          else
            (case checkAnswer rt question (an_selectedAnswer a) of
               Inl err \<Rightarrow> (rows, Inl err)
             | Inr isCorrect \<Rightarrow>
                 if isCorrect then
                   (let marksValue = (if q_marks question \<noteq> 0 \<and> q_marks question > 0
                                      then q_marks question else 1);
                        marksAwarded = marksValue
                    in gradeAnswers rt ex qs rest
                         (updateAnswer a (\<lambda>r. r\<lparr>an_isCorrect := Some isCorrect,
                                                  an_marksAwarded := marksAwarded\<rparr>) rows)
                         (acc\<lparr>t_correctAnswers := t_correctAnswers acc + 1,
                              t_totalScore := t_totalScore acc + marksAwarded\<rparr>))
                 else
                   (case ex of
                      None \<Rightarrow> (rows, Inl TypeError)
                    | Some e \<Rightarrow>
                        (let marksAwarded =
                               (if e_negativeMarking e then
                                  - (if q_negativeMarks question \<noteq> 0 then q_negativeMarks question
                                     else if e_negativeMarkValue e \<noteq> 0 then e_negativeMarkValue e
                                     else 0)
                                else 0)
                         in gradeAnswers rt ex qs rest
                              (updateAnswer a (\<lambda>r. r\<lparr>an_isCorrect := Some isCorrect,
                                                       an_marksAwarded := marksAwarded\<rparr>) rows)
                              (acc\<lparr>t_wrongAnswers := t_wrongAnswers acc + 1,
                                   t_totalScore := t_totalScore acc + marksAwarded\<rparr>)))))"

text \<open>What \<open>finalizeAttempt\<close> returns; \<open>r_timeTaken\<close> is the number of seconds that
  \<open>formatDuration\<close> then prints.\<close>

record graded_result =
  r_attemptId :: ident
  r_status :: attempt_status
  r_totalScore :: real
  r_maxScore :: real
  r_percentage :: real
  r_correctAnswers :: nat
  r_wrongAnswers :: nat
  r_skipped :: nat
  r_timeTaken :: int
  r_grade :: string
  r_passed :: bool

text \<open>
  \<open>finalizeAttempt(attemptId, submitType)\<close>, at the time \<open>now\<close> of its \<open>new Date()\<close>. The
  result pairs the database after the call with the value returned or the exception thrown.
  The code goes on with whatever number \<open>calculatePercentage\<close> returns; the model stops
  with \<open>NonFiniteNumber\<close> should that be \<open>NaN\<close> or an infinity, which the guard of
  \<open>calculatePercentage\<close> excludes (\<open>calculatePercentage_number\<close> below).
\<close>

definition finalizeAttempt ::
  "js_runtime \<Rightarrow> time \<Rightarrow> db \<Rightarrow> ident \<Rightarrow> string \<Rightarrow> db \<times> (error + graded_result)" where
  "finalizeAttempt rt now d attemptId submitType =
    (case findAttempt d attemptId of
       None \<Rightarrow> (d, Inl (BadRequest ''Attempt already submitted''))
     | Some att \<Rightarrow>
        if \<not> isActiveStatus (at_status att)
        then (d, Inl (BadRequest ''Attempt already submitted''))
        else
         (let ex = exams d (at_examId att);
              read = filter (\<lambda>a. an_attemptId a = attemptId) (answers d)
          in case gradeAnswers rt ex (questions d) read (answers d)
                    \<lparr>t_totalScore = 0, t_correctAnswers = 0, t_wrongAnswers = 0, t_skipped = 0\<rparr> of
               (rows, Inl err) \<Rightarrow> (d\<lparr>answers := rows\<rparr>, Inl err)
             | (rows, Inr tot) \<Rightarrow>
                 (case ex of
                    None \<Rightarrow> (d\<lparr>answers := rows\<rparr>, Inl TypeError)
                  | Some e \<Rightarrow>
                     (let totalScore = t_totalScore tot in
                      case calculatePercentage totalScore (e_totalMarks e) of
                        None \<Rightarrow> (d\<lparr>answers := rows\<rparr>, Inl NonFiniteNumber)
                      | Some percentage \<Rightarrow>
                         (let passed = (percentage \<ge> e_passingPercentage e);
                              grade = calculateGrade percentage;
                              timeTaken = (now - at_startedAt att) div 1000;
                              status = (if submitType = ''auto_submitted''
                                        then Auto_submitted else Submitted);
                              stored = max 0 totalScore
                          in (d\<lparr>answers := rows,
                                attempts := updateAttempt attemptId
                                  (\<lambda>r. r\<lparr>at_status := status,
                                          at_submittedAt := Some now,
                                          at_totalScore := stored,
                                          at_percentage := Some percentage,
                                          at_correctAnswers := t_correctAnswers tot,
                                          at_wrongAnswers := t_wrongAnswers tot,
                                          at_skipped := t_skipped tot,
                                          at_timeTaken := Some timeTaken,
                                          at_grade := Some grade,
                                          at_passed := Some passed\<rparr>) (attempts d)\<rparr>,
                              Inr \<lparr>r_attemptId = at_id att,
                                   r_status = status,
                                   r_totalScore = stored,
                                   r_maxScore = e_totalMarks e,
                                   r_percentage = percentage,
                                   r_correctAnswers = t_correctAnswers tot,
                                   r_wrongAnswers = t_wrongAnswers tot,
                                   r_skipped = t_skipped tot,
                                   r_timeTaken = timeTaken,
                                   r_grade = grade,
                                   r_passed = passed\<rparr>))))))"

text \<open>\<open>autoSubmitAttempt(attemptId)\<close>\<close>

definition autoSubmitAttempt ::
  "js_runtime \<Rightarrow> time \<Rightarrow> db \<Rightarrow> ident \<Rightarrow> db \<times> (error + graded_result)" where
  "autoSubmitAttempt rt now d attemptId = finalizeAttempt rt now d attemptId ''auto_submitted''"

text \<open>\<open>submitAttempt(attemptId, studentId)\<close>\<close>

definition submitAttempt ::
  "js_runtime \<Rightarrow> time \<Rightarrow> db \<Rightarrow> ident \<Rightarrow> ident \<Rightarrow> db \<times> (error + graded_result)" where
  "submitAttempt rt now d attemptId studentId =
     (case findActiveAttempt d attemptId studentId of
        None \<Rightarrow> (d, Inl (NotFound ''Active attempt not found''))
      | Some att \<Rightarrow> finalizeAttempt rt now d attemptId ''submitted'')"

text \<open>
  \<open>saveAnswer(attemptId, questionId, answer, studentId, metadata)\<close> at the time \<open>now\<close>;
  \<open>timeSpent\<close> is \<open>metadata.timeSpent || 0\<close>. A missing answer (\<open>null\<close> or \<open>undefined\<close>)
  is \<open>JNull\<close> and is taken to store \<open>NULL\<close>. The upsert writes the row of
  \<open>(attemptId, questionId)\<close> or creates it, which the foreign key on the question refuses
  when the question does not exist.
\<close>

definition saveAnswer ::
  "js_runtime \<Rightarrow> time \<Rightarrow> db \<Rightarrow> ident \<Rightarrow> ident \<Rightarrow> jsvalue \<Rightarrow> ident \<Rightarrow> int \<Rightarrow> db \<times> (error + bool)" where
  "saveAnswer rt now d attemptId questionId ans studentId timeSpent =
    (case findActiveAttempt d attemptId studentId of
       None \<Rightarrow> (d, Inl (NotFound ''Active attempt not found''))
     | Some att \<Rightarrow>
        (case exams d (at_examId att) of
           None \<Rightarrow> (d, Inl TypeError)
         | Some e \<Rightarrow>
            if now > attemptEndTime rt att e then
              (case autoSubmitAttempt rt now d attemptId of
                 (d', Inl err) \<Rightarrow> (d', Inl err)
               | (d', Inr res) \<Rightarrow>
                   (d', Inl (BadRequest ''Time expired. Exam has been auto-submitted.'')))
            else
              (let write = (\<lambda>r. r\<lparr>an_selectedAnswer := ans,
                                    an_isAnswered := (ans \<noteq> JNull),
                                    an_answeredAt := Some now,
                                    an_timeSpent := Some timeSpent\<rparr>);
                   existing = find (\<lambda>r. an_attemptId r = attemptId \<and> an_questionId r = questionId)
                                (answers d)
               in case existing of
                    None \<Rightarrow>
                      (if questions d questionId = None then (d, Inl ForeignKeyError)
                       else
                         (d\<lparr>answers := answers d @
                               [write \<lparr>an_attemptId = attemptId, an_questionId = questionId,
                                       an_selectedAnswer = JNull, an_isCorrect = None,
                                       an_isAnswered = False, an_isMarkedForReview = False,
                                       an_marksAwarded = 0, an_timeSpent = None,
                                       an_answeredAt = None\<rparr>],
                             attempts := (if at_status att = Started
                                          then updateAttempt attemptId
                                                 (\<lambda>r. r\<lparr>at_status := In_progress\<rparr>) (attempts d)
                                          else attempts d)\<rparr>,
                          Inr True))
                  | Some row \<Rightarrow>
                      (d\<lparr>answers := updateAnswer row write (answers d),
                          attempts := (if at_status att = Started
                                       then updateAttempt attemptId
                                              (\<lambda>r. r\<lparr>at_status := In_progress\<rparr>) (attempts d)
                                       else attempts d)\<rparr>,
                       Inr True))))"

subsection \<open>Starting and resuming\<close>


record saved_answer =
  sa_selectedAnswer :: jsvalue
  sa_isAnswered :: bool
  sa_isMarkedForReview :: bool

record formatted_question =
  fq_id :: ident
  fq_questionNumber :: nat
  fq_questionType :: string
  fq_options :: "(ident \<times> string) list"
  fq_marks :: real
  fq_negativeMarks :: real
  fq_savedAnswer :: "saved_answer option"

record attempt_session =
  s_attemptId :: ident
  s_status :: attempt_status
  s_examId :: ident
  s_examTitle :: string
  s_durationMinutes :: int
  s_totalQuestions :: nat
  s_totalMarks :: real
  s_negativeMarking :: bool
  s_startedAt :: time
  s_endTime :: time
  s_timeRemaining :: int
  s_questions :: "formatted_question list"

record resumed_session = attempt_session +
  s_answers :: "(ident \<times> saved_answer) list"
  s_answeredCount :: nat
  s_markedForReviewCount :: nat

text \<open>\<open>exam.questions.map((rel) => rel.question)\<close> of \<open>getExamWithQuestions\<close>: the questions of
  the exam's \<open>exam_questions\<close> rows, in the order of the rows.\<close>

definition examQuestionList :: "db \<Rightarrow> ident \<Rightarrow> question list" where
  "examQuestionList d examId =
     List.map_filter (\<lambda>(e, q). if e = examId then questions d q else None) (examQuestions d)"

text \<open>A string is true in a condition when it is not empty, an absent one is false.\<close>

definition truthyId :: "ident option \<Rightarrow> bool" where
  "truthyId x = (case x of None \<Rightarrow> False | Some s \<Rightarrow> s \<noteq> [])"


definition optionViews :: "question \<Rightarrow> (ident \<times> string) list" where
  "optionViews q = map (\<lambda>o'. (o_id o', o_text o')) (q_options q)"




text \<open>
  \<open>resumeAttempt(attemptOrExamId, studentId, findByExamId)\<close> at the time \<open>now\<close>.
\<close>

definition resumeAttempt ::
  "js_runtime \<Rightarrow> time \<Rightarrow> db \<Rightarrow> ident \<Rightarrow> ident \<Rightarrow> bool \<Rightarrow> db \<times> (error + resumed_session)" where
  "resumeAttempt rt now d attemptOrExamId studentId findByExamId =
    (case (if findByExamId
           then find (\<lambda>a. at_examId a = attemptOrExamId \<and> at_studentId a = studentId \<and>
                           isActiveStatus (at_status a)) (attempts d)
           else findActiveAttempt d attemptOrExamId studentId) of
       None \<Rightarrow> (d, Inl (NotFound ''No active attempt found''))
     | Some att \<Rightarrow>
        (case exams d (at_examId att) of
           None \<Rightarrow> (d, Inl (NotFound ''Exam not found''))
         | Some e \<Rightarrow>
            if now > attemptEndTime rt att e then
              (case autoSubmitAttempt rt now d (at_id att) of
                 (d', Inl err) \<Rightarrow> (d', Inl err)
               | (d', Inr res) \<Rightarrow>
                   (d', Inl (BadRequest ''Time expired. Exam has been auto-submitted.'')))
            else
              (let qs = examQuestionList d (at_examId att);
                   rows = filter (\<lambda>r. an_attemptId r = at_id att) (answers d);
                   saved = (\<lambda>r. \<lparr>sa_selectedAnswer = an_selectedAnswer r,
                                   sa_isAnswered = an_isAnswered r,
                                   sa_isMarkedForReview = an_isMarkedForReview r\<rparr>);
                   answerMap = (\<lambda>qid. map_option saved
                                         (find (\<lambda>r. an_questionId r = qid) (rev rows)));
                   endTime = attemptEndTime rt att e;
                   formattedQuestions =
                     map (\<lambda>(index, q).
                            \<lparr>fq_id = q_id q, fq_questionNumber = index + 1,
                             fq_questionType = q_questionType q,
                             fq_options = optionViews q,
                             fq_marks = q_marks q, fq_negativeMarks = q_negativeMarks q,
                             fq_savedAnswer = answerMap (q_id q)\<rparr>) (enumerate 0 qs)
               in (d, Inr \<lparr>s_attemptId = at_id att, s_status = at_status att,
                            s_examId = e_id e, s_examTitle = e_title e,
                            s_durationMinutes = e_durationMinutes e,
                            s_totalQuestions = length qs, s_totalMarks = e_totalMarks e,
                            s_negativeMarking = e_negativeMarking e,
                            s_startedAt = at_startedAt att, s_endTime = endTime,
                            s_timeRemaining = max 0 ((endTime - now) div 1000),
                            s_questions = formattedQuestions,
                            s_answers = map (\<lambda>r. (an_questionId r, saved r)) rows,
                            s_answeredCount = length (filter an_isAnswered rows),
                            s_markedForReviewCount =
                              length (filter an_isMarkedForReview rows)\<rparr>))))"

section \<open>The exam service\<close>

datatype role = Student | Educator | Admin

definition statusName :: "exam_status \<Rightarrow> string" where
  "statusName s = (case s of Draft \<Rightarrow> ''draft'' | Published \<Rightarrow> ''published''
                   | Active \<Rightarrow> ''active'' | Completed \<Rightarrow> ''completed''
                   | Archived \<Rightarrow> ''archived'')"

text \<open>
  The check every mutation of an exam starts with: an educator of another institution is
  refused with the operation's message. The user row is read only for an educator, and its
  institution only when the exam has one.
\<close>

definition institutionCheck :: "db \<Rightarrow> exam \<Rightarrow> ident \<Rightarrow> role \<Rightarrow> string \<Rightarrow> error option" where
  "institutionCheck d e userId userRole msg =
     (if userRole = Educator \<and> truthyId (e_institutionId e) then
        (case users d userId of
           None \<Rightarrow> Some TypeError
         | Some u \<Rightarrow>
             if truthyId (u_institutionId u) \<and> e_institutionId e \<noteq> u_institutionId u
             then Some (Forbidden msg) else None)
      else None)"

definition relatedIds :: "(ident \<times> ident) list \<Rightarrow> ident \<Rightarrow> ident list" where
  "relatedIds rows examId = map snd (filter (\<lambda>(e, x). e = examId) rows)"

text \<open>\<open>x && xs.includes(x)\<close> for an optional id \<open>x\<close>.\<close>

definition idIncluded :: "ident option \<Rightarrow> ident list \<Rightarrow> bool" where
  "idIncluded x xs = (case x of None \<Rightarrow> False | Some s \<Rightarrow> s \<noteq> [] \<and> s \<in> set xs)"

text \<open>The \<open>isAssigned\<close> of \<open>getExamById\<close>: the exam is for all students, or the student's
  section, department or own id is among the exam's targets.\<close>

definition isAssigned :: "db \<Rightarrow> ident \<Rightarrow> exam \<Rightarrow> ident \<Rightarrow> user \<Rightarrow> bool" where
  "isAssigned d examId e userId student =
     (let assignedSectionIds = relatedIds (examSections d) examId;
          assignedDepartmentIds = relatedIds (examDepartments d) examId;
          assignedStudentIds = relatedIds (examStudents d) examId
      in e_assignmentMode e = AllStudents \<or>
         idIncluded (u_sectionId student) assignedSectionIds \<or>
         idIncluded (u_departmentId student) assignedDepartmentIds \<or>
         userId \<in> set assignedStudentIds)"

text \<open>\<open>getExamById(examId, userId, userRole)\<close>\<close>

definition getExamById :: "db \<Rightarrow> ident \<Rightarrow> ident \<Rightarrow> role \<Rightarrow> db \<times> (error + exam_view)" where
  "getExamById d examId userId userRole =
    (case (if userRole \<noteq> Student then examCache d examId else None) of
       Some cached \<Rightarrow> (d, Inr cached)
     | None \<Rightarrow>
        (case exams d examId of
           None \<Rightarrow> (d, Inl (NotFound ''Exam not found''))
         | Some e \<Rightarrow>
            (let denied =
               (if userRole = Student then
                  (if e_status e \<noteq> Published \<and> e_status e \<noteq> Active \<and> e_status e \<noteq> Completed
                   then Some (NotFound (''This exam is currently unavailable ('' @
                          statusName (e_status e) @
                          ''). Please ask your instructor to publish it.''))
                   else
                    (case users d userId of
                       None \<Rightarrow> Some (NotFound ''Student not found'')
                     | Some student \<Rightarrow>
                        if \<not> isAssigned d examId e userId student
                        then Some (Forbidden ''This exam is not assigned to you'')
                        else if truthyId (e_institutionId e) \<and>
                                truthyId (u_institutionId student) \<and>
                                e_institutionId e \<noteq> u_institutionId student
                        then Some (NotFound ''Exam not found'')
                        else None))
                else None)
             in case denied of
                  Some err \<Rightarrow> (d, Inl err)
                | None \<Rightarrow>
                   (let qs = examQuestionList d examId;
                        response = \<lparr>v_exam = e,
                                    v_assignedSections = relatedIds (examSections d) examId,
                                    v_assignedDepartments = relatedIds (examDepartments d) examId,
                                    v_questionCount = length qs,
                                    v_questions = qs\<rparr>
                    in (if userRole \<noteq> Student
                        then d\<lparr>examCache := (examCache d)(examId \<mapsto> response)\<rparr>
                        else d,
                        Inr response)))))"

text \<open>\<open>updateExam(examId, updateData, userId, userRole)\<close>; the columns that \<open>updateData\<close>
  sets are given as the change they make to the row.\<close>

definition updateExam ::
  "db \<Rightarrow> ident \<Rightarrow> (exam \<Rightarrow> exam) \<Rightarrow> ident \<Rightarrow> role \<Rightarrow> db \<times> (error + exam)" where
  "updateExam d examId updateData userId userRole =
    (case exams d examId of
       None \<Rightarrow> (d, Inl (NotFound ''Exam not found''))
     | Some e \<Rightarrow>
        (case institutionCheck d e userId userRole
                ''You can only update exams in your institution'' of
           Some err \<Rightarrow> (d, Inl err)
         | None \<Rightarrow>
            if e_status e = Active \<or> e_status e = Completed
            then (d, Inl (BadRequest ''Cannot update an active or completed exam''))
            else (d\<lparr>exams := (exams d)(examId \<mapsto> updateData e),
                    examCache := (examCache d)(examId := None)\<rparr>,
                  Inr (updateData e))))"

text \<open>\<open>deleteExam(examId, userId, userRole)\<close>. The transaction deletes the exam's relation
  rows and the exam; the foreign key of \<open>exam_attempts\<close> refuses it, as a whole, when an
  attempt refers to the exam.\<close>

definition deleteExam :: "db \<Rightarrow> ident \<Rightarrow> ident \<Rightarrow> role \<Rightarrow> db \<times> (error + bool)" where
  "deleteExam d examId userId userRole =
    (case exams d examId of
       None \<Rightarrow> (d, Inl (NotFound ''Exam not found''))
     | Some e \<Rightarrow>
        (case institutionCheck d e userId userRole
                ''You can only delete exams in your institution'' of
           Some err \<Rightarrow> (d, Inl err)
         | None \<Rightarrow>
            if e_status e = Active \<or> e_status e = Completed
            then (d, Inl (BadRequest ''Cannot delete an active or completed exam''))
            else if list_ex (\<lambda>a. at_examId a = examId) (attempts d)
            then (d, Inl ForeignKeyError)
            else (d\<lparr>examQuestions := filter (\<lambda>(x, q). x \<noteq> examId) (examQuestions d),
                    examSections := filter (\<lambda>(x, q). x \<noteq> examId) (examSections d),
                    examDepartments := filter (\<lambda>(x, q). x \<noteq> examId) (examDepartments d),
                    examStudents := filter (\<lambda>(x, q). x \<noteq> examId) (examStudents d),
                    examAssignments := filter (\<lambda>(x, q). x \<noteq> examId) (examAssignments d),
                    exams := (exams d)(examId := None),
                    examCache := (examCache d)(examId := None)\<rparr>,
                  Inr True)))"

text \<open>The recomputed total: the sum of \<open>rel.question.marks || 1\<close> over the exam's questions.\<close>

definition sumOfMarks :: "db \<Rightarrow> ident \<Rightarrow> real" where
  "sumOfMarks d examId =
     sum_list (map (\<lambda>q. if q_marks q \<noteq> 0 then q_marks q else 1) (examQuestionList d examId))"

text \<open>\<open>createMany\<close> with \<open>skipDuplicates\<close> on the rows of \<open>exam_questions\<close>.\<close>

fun createExamQuestions :: "ident \<Rightarrow> ident list \<Rightarrow> (ident \<times> ident) list \<Rightarrow> (ident \<times> ident) list" where
  "createExamQuestions examId [] rows = rows"
| "createExamQuestions examId (q # qs) rows =
     createExamQuestions examId qs
       (if (examId, q) \<in> set rows then rows else rows @ [(examId, q)])"

text \<open>\<open>addQuestionsToExam(examId, questionIds, userId, userRole)\<close>. \<open>findMany\<close> returns one
  row for each existing question whose id is among \<open>questionIds\<close>.\<close>

definition addQuestionsToExam ::
  "db \<Rightarrow> ident \<Rightarrow> ident list \<Rightarrow> ident \<Rightarrow> role \<Rightarrow> db \<times> (error + exam)" where
  "addQuestionsToExam d examId questionIds userId userRole =
    (case exams d examId of
       None \<Rightarrow> (d, Inl (NotFound ''Exam not found''))
     | Some e \<Rightarrow>
        (case institutionCheck d e userId userRole
                ''You can only modify exams in your institution'' of
           Some err \<Rightarrow> (d, Inl err)
         | None \<Rightarrow>
            (let found = filter (\<lambda>q. questions d q \<noteq> None) (remdups questionIds) in
             if length found \<noteq> length questionIds
             then (d, Inl (BadRequest ''Some questions not found''))
             else
              (let d1 = d\<lparr>examQuestions :=
                           createExamQuestions examId questionIds (examQuestions d)\<rparr>;
                   updated = e\<lparr>e_totalMarks := sumOfMarks d1 examId\<rparr>
               in (d1\<lparr>exams := (exams d1)(examId \<mapsto> updated),
                      examCache := (examCache d1)(examId := None)\<rparr>,
                   Inr updated)))))"

text \<open>\<open>removeQuestionsFromExam(examId, questionIds, userId, userRole)\<close>\<close>

definition removeQuestionsFromExam ::
  "db \<Rightarrow> ident \<Rightarrow> ident list \<Rightarrow> ident \<Rightarrow> role \<Rightarrow> db \<times> (error + exam)" where
  "removeQuestionsFromExam d examId questionIds userId userRole =
    (case exams d examId of
       None \<Rightarrow> (d, Inl (NotFound ''Exam not found''))
     | Some e \<Rightarrow>
        (case institutionCheck d e userId userRole
                ''You can only modify exams in your institution'' of
           Some err \<Rightarrow> (d, Inl err)
         | None \<Rightarrow>
            (let d1 = d\<lparr>examQuestions :=
                         filter (\<lambda>(x, q). \<not> (x = examId \<and> q \<in> set questionIds))
                           (examQuestions d)\<rparr>;
                 updated = e\<lparr>e_totalMarks := sumOfMarks d1 examId\<rparr>
             in (d1\<lparr>exams := (exams d1)(examId \<mapsto> updated),
                    examCache := (examCache d1)(examId := None)\<rparr>,
                 Inr updated))))"

text \<open>The write the status transitions share: set the status, drop the cached details.\<close>

definition setExamStatus :: "db \<Rightarrow> ident \<Rightarrow> exam \<Rightarrow> exam_status \<Rightarrow> db \<times> (error + exam)" where
  "setExamStatus d examId e s =
     (d\<lparr>exams := (exams d)(examId \<mapsto> e\<lparr>e_status := s\<rparr>),
        examCache := (examCache d)(examId := None)\<rparr>,
      Inr (e\<lparr>e_status := s\<rparr>))"

text \<open>\<open>publishExam(examId, userId, userRole)\<close>; \<open>exam._count.questions\<close> is the number of
  the exam's \<open>exam_questions\<close> rows.\<close>

definition publishExam :: "db \<Rightarrow> ident \<Rightarrow> ident \<Rightarrow> role \<Rightarrow> db \<times> (error + exam)" where
  "publishExam d examId userId userRole =
    (case exams d examId of
       None \<Rightarrow> (d, Inl (NotFound ''Exam not found''))
     | Some e \<Rightarrow>
        (case institutionCheck d e userId userRole
                ''You can only publish exams in your institution'' of
           Some err \<Rightarrow> (d, Inl err)
         | None \<Rightarrow>
            if length (filter (\<lambda>(x, q). x = examId) (examQuestions d)) = 0
            then (d, Inl (BadRequest ''Cannot publish exam without questions''))
            else setExamStatus d examId e Published))"

text \<open>\<open>activateExam(examId, userId, userRole)\<close>\<close>

definition activateExam :: "db \<Rightarrow> ident \<Rightarrow> ident \<Rightarrow> role \<Rightarrow> db \<times> (error + exam)" where
  "activateExam d examId userId userRole =
    (case exams d examId of
       None \<Rightarrow> (d, Inl (NotFound ''Exam not found''))
     | Some e \<Rightarrow>
        (case institutionCheck d e userId userRole
                ''You can only activate exams in your institution'' of
           Some err \<Rightarrow> (d, Inl err)
         | None \<Rightarrow>
            if e_status e \<noteq> Published
            then (d, Inl (BadRequest ''Only published exams can be activated''))
            else setExamStatus d examId e Active))"

text \<open>\<open>closeExam(examId, userId, userRole)\<close>\<close>

definition closeExam :: "db \<Rightarrow> ident \<Rightarrow> ident \<Rightarrow> role \<Rightarrow> db \<times> (error + exam)" where
  "closeExam d examId userId userRole =
    (case exams d examId of
       None \<Rightarrow> (d, Inl (NotFound ''Exam not found''))
     | Some e \<Rightarrow>
        (case institutionCheck d e userId userRole
                ''You can only close exams in your institution'' of
           Some err \<Rightarrow> (d, Inl err)
         | None \<Rightarrow>
            if e_status e \<noteq> Published \<and> e_status e \<noteq> Active
            then (d, Inl (BadRequest ''Only published or active exams can be closed''))
            else setExamStatus d examId e Completed))"

section \<open>Conditions used in the statements\<close>

text \<open>A value that can be converted to a string: no object in it, at any depth of its
  arrays, has a member named \<open>toString\<close>.\<close>

fun printable :: "jsvalue \<Rightarrow> bool" where
  "printable (JArr xs) = list_all printable xs"
| "printable (JObj members) = (ownProperty members ''toString'' = None)"
| "printable v = True"

text \<open>
  No correctness check of the attempt's answers raises: for every answer row of the attempt
  that the grading loop checks (its question exists, it is answered, its value is not
  \<open>null\<close>), \<open>checkAnswer\<close> returns a verdict. By \<open>checkAnswer_total\<close> below it does so for
  every question that is not a short-answer question, when the answer and the answer key are
  printable.
\<close>

definition answersGradable :: "js_runtime \<Rightarrow> db \<Rightarrow> ident \<Rightarrow> bool" where
  "answersGradable rt d attemptId =
     list_all
       (\<lambda>a. case questions d (an_questionId a) of
               None \<Rightarrow> True
             | Some q \<Rightarrow>
                 \<not> an_isAnswered a \<or> an_selectedAnswer a = JNull \<or>
                 \<not> isl (checkAnswer rt q (an_selectedAnswer a)))
       (filter (\<lambda>a. an_attemptId a = attemptId) (answers d))"

section \<open>Scenarios\<close>

text \<open>
  A runtime for the concrete scenarios. They store option ids and texts in ASCII and no
  numbers, so only the string conversions matter: lower-casing of the ASCII letters and
  trimming of the ASCII blanks. The number conversions are never applied there. The local
  clock is UTC.
\<close>

definition asciiLower :: "char \<Rightarrow> char" where
  "asciiLower c = (let n = (of_char c :: nat) in if 65 \<le> n \<and> n \<le> 90 then char_of (n + 32) else c)"

definition asciiBlank :: "char \<Rightarrow> bool" where
  "asciiBlank c = ((of_char c :: nat) \<in> {9, 10, 11, 12, 13, 32})"

definition scenario_runtime :: js_runtime where
  "scenario_runtime =
     \<lparr>numberToString = (\<lambda>r. ''NaN''),
      stringToNumber = (\<lambda>s. None),
      toLowerCase = map asciiLower,
      trim = (\<lambda>s. rev (dropWhile asciiBlank (rev (dropWhile asciiBlank s)))),
      localTime = (\<lambda>t. t),
      utcTime = (\<lambda>t. t)\<rparr>"

text \<open>
  The exam of the specification's scenarios: two single-choice questions of 5 marks each,
  totalMarks 10, 30 minutes, negative marking on with negativeMarkValue 2, passing at 40.
\<close>

definition scenario_exam :: exam where
  "scenario_exam =
     \<lparr>e_id = ''e1'', e_title = ''Quiz'', e_createdById = ''t1'', e_institutionId = Some ''i1'',
      e_courseId = None, e_assignmentMode = BySection, e_durationMinutes = 30,
      e_totalMarks = 10, e_passingPercentage = 40, e_negativeMarking = True,
      e_negativeMarkValue = 2, e_shuffleQuestions = True, e_shuffleOptions = False,
      e_maxAttempts = 1, e_status = Active, e_startTime = None, e_endTime = None\<rparr>"

definition scenario_q1 :: question where
  "scenario_q1 =
     \<lparr>q_id = ''q1'', q_questionType = ''mcq'',
      q_options = [\<lparr>o_id = ''q1a'', o_text = ''yes'', o_isCorrect = True\<rparr>,
                   \<lparr>o_id = ''q1b'', o_text = ''no'', o_isCorrect = False\<rparr>],
      q_correctAnswer = JNull, q_marks = 5, q_negativeMarks = 0\<rparr>"

definition scenario_q2 :: question where
  "scenario_q2 =
     \<lparr>q_id = ''q2'', q_questionType = ''mcq'',
      q_options = [\<lparr>o_id = ''q2a'', o_text = ''yes'', o_isCorrect = True\<rparr>,
                   \<lparr>o_id = ''q2b'', o_text = ''no'', o_isCorrect = False\<rparr>],
      q_correctAnswer = JNull, q_marks = 5, q_negativeMarks = 0\<rparr>"

definition scenario_student :: user where
  "scenario_student =
     \<lparr>u_id = ''s1'', u_sectionId = Some ''sec2'', u_departmentId = Some ''dep2'',
      u_institutionId = Some ''i1''\<rparr>"

definition scenario_teacher :: user where
  "scenario_teacher =
     \<lparr>u_id = ''t1'', u_sectionId = None, u_departmentId = None, u_institutionId = Some ''i1''\<rparr>"

text \<open>The attempt of student \<open>s1\<close>, started at time 0, with the given status.\<close>

definition scenario_attempt :: "attempt_status \<Rightarrow> attempt" where
  "scenario_attempt st =
     \<lparr>at_id = ''a1'', at_examId = ''e1'', at_studentId = ''s1'', at_attemptNumber = 1,
      at_status = st, at_startedAt = 0, at_submittedAt = None, at_totalScore = 0,
      at_maxScore = Some 10, at_percentage = None, at_correctAnswers = 0, at_wrongAnswers = 0,
      at_skipped = 0, at_timeTaken = None, at_grade = None, at_passed = None\<rparr>"

text \<open>A saved answer of the attempt to a question.\<close>

definition scenario_answer :: "ident \<Rightarrow> jsvalue \<Rightarrow> answer" where
  "scenario_answer qid v =
     \<lparr>an_attemptId = ''a1'', an_questionId = qid, an_selectedAnswer = v, an_isCorrect = None,
      an_isAnswered = True, an_isMarkedForReview = False, an_marksAwarded = 0,
      an_timeSpent = Some 0, an_answeredAt = Some 1000\<rparr>"

text \<open>The database of the scenarios, around the given exam, questions, attempts and
  answers. The exam is assigned to section \<open>sec1\<close>; the student is in \<open>sec2\<close>.\<close>

definition scenario_db :: "exam \<Rightarrow> question list \<Rightarrow> attempt list \<Rightarrow> answer list \<Rightarrow> db" where
  "scenario_db e qs atts ans =
     \<lparr>exams = [''e1'' \<mapsto> e],
      questions = map_of (map (\<lambda>q. (q_id q, q)) qs),
      examQuestions = map (\<lambda>q. (''e1'', q_id q)) qs,
      examSections = [(''e1'', ''sec1'')],
      examDepartments = [],
      examStudents = [],
      examAssignments = [],
      users = [''s1'' \<mapsto> scenario_student, ''t1'' \<mapsto> scenario_teacher],
      enrollments = [],
      attempts = atts,
      answers = ans,
      examCache = Map.empty\<rparr>"

text \<open>Both questions answered with the wrong option.\<close>

definition both_wrong_db :: db where
  "both_wrong_db =
     scenario_db scenario_exam [scenario_q1, scenario_q2] [scenario_attempt In_progress]
       [scenario_answer ''q1'' (JStr ''q1b''), scenario_answer ''q2'' (JStr ''q2b'')]"

text \<open>What finalize stores and returns on the scenario with both answers wrong, when the
  attempt is submitted at time 60000.\<close>

definition both_wrong_result :: graded_result where
  "both_wrong_result =
     \<lparr>r_attemptId = ''a1'', r_status = Submitted, r_totalScore = 0, r_maxScore = 10,
      r_percentage = - 40, r_correctAnswers = 0, r_wrongAnswers = 2, r_skipped = 0,
      r_timeTaken = 60, r_grade = ''F'', r_passed = False\<rparr>"

definition both_wrong_finalized_db :: db where
  "both_wrong_finalized_db =
     scenario_db scenario_exam [scenario_q1, scenario_q2]
       [(scenario_attempt Submitted)
          \<lparr>at_submittedAt := Some 60000, at_totalScore := 0, at_percentage := Some (- 40),
           at_correctAnswers := 0, at_wrongAnswers := 2, at_skipped := 0,
           at_timeTaken := Some 60, at_grade := Some ''F'', at_passed := Some False\<rparr>]
       [(scenario_answer ''q1'' (JStr ''q1b''))
          \<lparr>an_isCorrect := Some False, an_marksAwarded := - 2\<rparr>,
        (scenario_answer ''q2'' (JStr ''q2b''))
          \<lparr>an_isCorrect := Some False, an_marksAwarded := - 2\<rparr>]"



text \<open>An exam with one short-answer question that has no answer key (\<open>correctAnswer\<close> is
  \<open>NULL\<close>), which the student has answered.\<close>

definition scenario_q3 :: question where
  "scenario_q3 =
     \<lparr>q_id = ''q3'', q_questionType = ''short_answer'', q_options = [],
      q_correctAnswer = JNull, q_marks = 5, q_negativeMarks = 0\<rparr>"

definition unkeyed_db :: db where
  "unkeyed_db =
     scenario_db scenario_exam [scenario_q3] [scenario_attempt In_progress]
       [scenario_answer ''q3'' (JStr ''paris'')]"


text \<open>A multi-select question with the options \<open>m1\<close> and \<open>m2\<close> correct and \<open>m3\<close> not.\<close>

definition scenario_multi :: question where
  "scenario_multi =
     \<lparr>q_id = ''q4'', q_questionType = ''multiple'',
      q_options = [\<lparr>o_id = ''m1'', o_text = ''one'', o_isCorrect = True\<rparr>,
                   \<lparr>o_id = ''m2'', o_text = ''two'', o_isCorrect = True\<rparr>,
                   \<lparr>o_id = ''m3'', o_text = ''three'', o_isCorrect = False\<rparr>],
      q_correctAnswer = JNull, q_marks = 4, q_negativeMarks = 0\<rparr>"

text \<open>The exam while active, with a third question in the question bank that is not yet
  part of the exam.\<close>

definition active_exam_db :: db where
  "active_exam_db =
     \<lparr>exams = [''e1'' \<mapsto> scenario_exam],
      questions = [''q1'' \<mapsto> scenario_q1, ''q2'' \<mapsto> scenario_q2, ''q3'' \<mapsto> scenario_q3],
      examQuestions = [(''e1'', ''q1''), (''e1'', ''q2'')],
      examSections = [(''e1'', ''sec1'')],
      examDepartments = [],
      examStudents = [],
      examAssignments = [],
      users = [''s1'' \<mapsto> scenario_student, ''t1'' \<mapsto> scenario_teacher],
      enrollments = [],
      attempts = [],
      answers = [],
      examCache = Map.empty\<rparr>"

text \<open>The exam after it was closed.\<close>

definition completed_exam :: exam where
  "completed_exam = scenario_exam\<lparr>e_status := Completed\<rparr>"

definition completed_exam_db :: db where
  "completed_exam_db = scenario_db completed_exam [scenario_q1, scenario_q2] [] []"

text \<open>The exam when published and not yet attempted.\<close>

definition published_exam :: exam where
  "published_exam = scenario_exam\<lparr>e_status := Published\<rparr>"

definition published_db :: db where
  "published_db = scenario_db published_exam [scenario_q1, scenario_q2] [] []"


text \<open>The answer row that \<open>startAttempt\<close> creates for a question.\<close>

definition blank_answer :: "ident \<Rightarrow> answer" where
  "blank_answer qid =
     \<lparr>an_attemptId = ''a1'', an_questionId = qid, an_selectedAnswer = JNull, an_isCorrect = None,
      an_isAnswered = False, an_isMarkedForReview = False, an_marksAwarded = 0,
      an_timeSpent = None, an_answeredAt = None\<rparr>"

text \<open>The database after student \<open>s1\<close> started attempt \<open>a1\<close> on the published exam at time 0
  and the random sort reversed the questions: the exam is now active, the answer rows were
  created in the presented order.\<close>

definition started_db :: db where
  "started_db =
     scenario_db scenario_exam [scenario_q1, scenario_q2] [scenario_attempt Started]
       [blank_answer ''q2'', blank_answer ''q1'']"

section \<open>Facts about the stored rows\<close>

lemma find_updateAttempt:
  assumes "\<And>a. at_id (f a) = at_id a"
  shows "find (\<lambda>a. at_id a = i) (updateAttempt i f rows)
         = map_option f (find (\<lambda>a. at_id a = i) rows)"
  using assms by (induction rows) (simp_all add: updateAttempt_def)

lemma scenario_question_fields:
  "q_id scenario_q1 = ''q1''" "q_id scenario_q2 = ''q2''"
  "q_marks scenario_q1 = 5" "q_marks scenario_q2 = 5"
  "q_negativeMarks scenario_q1 = 0" "q_negativeMarks scenario_q2 = 0"
  by (simp_all add: scenario_q1_def scenario_q2_def)

lemma scenario_attempt_fields:
  "at_id (scenario_attempt st) = ''a1''" "at_examId (scenario_attempt st) = ''e1''"
  "at_studentId (scenario_attempt st) = ''s1''"
  "at_status (scenario_attempt st) = st" "at_startedAt (scenario_attempt st) = 0"
  by (simp_all add: scenario_attempt_def)

lemma scenario_clock:
  "localTime scenario_runtime t = t" "utcTime scenario_runtime t = t"
  by (simp_all add: scenario_runtime_def)

lemma scenario_exam_fields:
  "e_totalMarks scenario_exam = 10" "e_passingPercentage scenario_exam = 40"
  "e_durationMinutes scenario_exam = 30"
  by (simp_all add: scenario_exam_def)

lemma both_wrong_tables:
  "attempts both_wrong_db = [scenario_attempt In_progress]"
  "exams both_wrong_db ''e1'' = Some scenario_exam"
  "findAttempt both_wrong_db ''a1'' = Some (scenario_attempt In_progress)"
  by (simp_all add: both_wrong_db_def scenario_db_def findAttempt_def scenario_attempt_def)

lemma both_wrong_checks:
  "checkAnswer scenario_runtime scenario_q1 (JStr ''q1b'') = Inr False"
  "checkAnswer scenario_runtime scenario_q2 (JStr ''q2b'') = Inr False"
  by (simp_all add: checkAnswer_def scenario_q1_def scenario_q2_def)

text \<open>The grading loop on the scenario with both answers wrong: two wrong answers of
  \<open>-2\<close> marks each, a running total of \<open>-4\<close>.\<close>

lemma both_wrong_graded:
  "gradeAnswers scenario_runtime (Some scenario_exam) (questions both_wrong_db)
     (filter (\<lambda>a. an_attemptId a = ''a1'') (answers both_wrong_db)) (answers both_wrong_db)
     \<lparr>t_totalScore = 0, t_correctAnswers = 0, t_wrongAnswers = 0, t_skipped = 0\<rparr>
   = ([(scenario_answer ''q1'' (JStr ''q1b''))\<lparr>an_isCorrect := Some False, an_marksAwarded := - 2\<rparr>,
       (scenario_answer ''q2'' (JStr ''q2b''))\<lparr>an_isCorrect := Some False, an_marksAwarded := - 2\<rparr>],
      Inr \<lparr>t_totalScore = - 4, t_correctAnswers = 0, t_wrongAnswers = 2, t_skipped = 0\<rparr>)"
  by (simp add: both_wrong_db_def scenario_db_def scenario_answer_def scenario_question_fields
        both_wrong_checks updateAnswer_def scenario_exam_def)

section \<open>Facts about finalize\<close>

lemma isl_map_result [simp]:
  "isl (case x of Inl e \<Rightarrow> Inl e | Inr v \<Rightarrow> Inr (f v)) = isl x"
  by (cases x) simp_all

lemma allResults_returns:
  assumes "\<And>r. r \<in> set rs \<Longrightarrow> \<not> isl r"
  shows "\<not> isl (allResults rs)"
  using assms
proof (induction rs)
  case Nil
  then show ?case by simp
next
  case (Cons r rs)
  then have "\<not> isl r" "\<not> isl (allResults rs)" by simp_all
  then show ?case
    by (cases r; cases "allResults rs") simp_all
qed

text \<open>A printable value has a string and a number.\<close>

lemma js_String_printable: "printable v \<Longrightarrow> \<not> isl (js_String rt v)"
proof (induction v)
  case (JArr xs)
  have "\<not> isl (allResults (map (\<lambda>x. case x of JNull \<Rightarrow> Inr [] | _ \<Rightarrow> js_String rt x) xs))"
  proof (rule allResults_returns)
    fix r
    assume "r \<in> set (map (\<lambda>x. case x of JNull \<Rightarrow> Inr [] | _ \<Rightarrow> js_String rt x) xs)"
    then obtain x where x: "x \<in> set xs"
      "r = (case x of JNull \<Rightarrow> Inr [] | _ \<Rightarrow> js_String rt x)" by auto
    with JArr have "\<not> isl (js_String rt x)" by (simp add: list_all_iff)
    with x(2) show "\<not> isl r" by (cases x) simp_all
  qed
  then show ?case by simp
qed simp_all

lemma js_Number_printable: "printable v \<Longrightarrow> \<not> isl (js_Number rt v)"
  using js_String_printable [of v rt] by (cases v) (simp_all del: js_String.simps)

lemma selectedIdOf_printable: "printable v \<Longrightarrow> \<not> isl (selectedIdOf rt v)"
  using js_String_printable [of v rt]
  by (cases v) (simp_all add: selectedIdOf_def del: js_String.simps)

lemma stringOrEmpty_printable: "printable v \<Longrightarrow> \<not> isl (stringOrEmpty rt v)"
  by (simp add: stringOrEmpty_def js_String_printable)

text \<open>The correctness check raises only for a short-answer question, or on an object that
  hides its \<open>toString\<close>.\<close>

lemma checkAnswer_total:
  assumes "q_questionType q \<noteq> ''short_answer''" "printable v" "printable (q_correctAnswer q)"
  shows "\<not> isl (checkAnswer rt q v)"
proof -
  let ?qt = "q_questionType q"
  note ok = js_String_printable [OF assms(2), of rt] js_Number_printable [OF assms(2), of rt]
    js_Number_printable [OF assms(3), of rt] stringOrEmpty_printable [OF assms(2), of rt]
    stringOrEmpty_printable [OF assms(3), of rt]
  consider (choice) "?qt = ''mcq'' \<or> ?qt = ''multiple_choice'' \<or> ?qt = ''true_false''"
    | (multi) "\<not> (?qt = ''mcq'' \<or> ?qt = ''multiple_choice'' \<or> ?qt = ''true_false'')"
              "?qt = ''multiple'' \<or> ?qt = ''multiple_select''"
    | (other) "\<not> (?qt = ''mcq'' \<or> ?qt = ''multiple_choice'' \<or> ?qt = ''true_false'')"
              "\<not> (?qt = ''multiple'' \<or> ?qt = ''multiple_select'')"
    by blast
  then show ?thesis
  proof cases
    case choice
    obtain s where s: "js_String rt v = Inr s"
      using ok(1) by (cases "js_String rt v") simp_all
    obtain s1 where s1: "stringOrEmpty rt v = Inr s1"
      using ok(4) by (cases "stringOrEmpty rt v") simp_all
    obtain c1 where c1: "stringOrEmpty rt (q_correctAnswer q) = Inr c1"
      using ok(5) by (cases "stringOrEmpty rt (q_correctAnswer q)") simp_all
    from choice s s1 c1 show ?thesis
      unfolding checkAnswer_def Let_def
      by (cases v) (simp_all split: option.split del: js_String.simps)
  next
    case multi
    show ?thesis
    proof (cases v)
      case (JArr elems)
      have "\<not> isl (allResults (map (selectedIdOf rt) elems))"
      proof (rule allResults_returns)
        fix r
        assume "r \<in> set (map (selectedIdOf rt) elems)"
        then obtain a where "a \<in> set elems" "r = selectedIdOf rt a" by auto
        with assms(2) JArr show "\<not> isl r"
          by (simp add: list_all_iff selectedIdOf_printable)
      qed
      with multi JArr show ?thesis
        unfolding checkAnswer_def Let_def by (simp split: sum.split jsvalue.split prod.split)
    qed (use multi in \<open>simp_all add: checkAnswer_def Let_def split: jsvalue.split prod.split\<close>)
  next
    case other
    obtain x where x: "js_Number rt v = Inr x"
      using ok(2) by (cases "js_Number rt v") simp_all
    obtain y where y: "js_Number rt (q_correctAnswer q) = Inr y"
      using ok(3) by (cases "js_Number rt (q_correctAnswer q)") simp_all
    from other assms(1) x y show ?thesis
      unfolding checkAnswer_def Let_def by (simp split: option.split prod.split)
  qed
qed

text \<open>The percentage is a number for every value and total: the test of the total keeps
  the division from a zero divisor. Without the test the total 0 would give no number.\<close>

lemma calculatePercentage_number: "calculatePercentage v tot \<noteq> None"
proof (cases "tot = 0")
  case True
  then show ?thesis by (simp add: calculatePercentage_def)
next
  case False
  then show ?thesis by (simp add: calculatePercentage_def js_divide_def)
qed

lemma js_divide_zero: "js_divide v 0 = None"
  by (simp add: js_divide_def)

text \<open>When the attempt is active, its exam exists and the grading loop finishes, finalize
  returns a result.\<close>

lemma finalizeAttempt_graded:
  assumes "findAttempt d i = Some att" "isActiveStatus (at_status att)"
    "exams d (at_examId att) = Some e"
    "snd (gradeAnswers rt (Some e) (questions d)
            (filter (\<lambda>a. an_attemptId a = i) (answers d)) (answers d)
            \<lparr>t_totalScore = 0, t_correctAnswers = 0, t_wrongAnswers = 0, t_skipped = 0\<rparr>)
     = Inr tot"
  shows "\<exists>d' r. finalizeAttempt rt now d i st = (d', Inr r)"
proof -
  obtain rows where
    "gradeAnswers rt (Some e) (questions d)
       (filter (\<lambda>a. an_attemptId a = i) (answers d)) (answers d)
       \<lparr>t_totalScore = 0, t_correctAnswers = 0, t_wrongAnswers = 0, t_skipped = 0\<rparr>
     = (rows, Inr tot)"
    using assms(4) by (metis prod.collapse)
  moreover obtain p where "calculatePercentage (t_totalScore tot) (e_totalMarks e) = Some p"
    using calculatePercentage_number [of "t_totalScore tot" "e_totalMarks e"] by auto
  ultimately show ?thesis
    using assms(1-3) by (simp add: finalizeAttempt_def Let_def)
qed

text \<open>The grading loop finishes when no check raises and the exam exists.\<close>

lemma gradeAnswers_completes:
  assumes "\<And>a q. a \<in> set todo \<Longrightarrow> qs (an_questionId a) = Some q \<Longrightarrow>
             an_isAnswered a \<Longrightarrow> an_selectedAnswer a \<noteq> JNull \<Longrightarrow>
             \<not> isl (checkAnswer rt q (an_selectedAnswer a))"
  shows "\<exists>rows' tot. gradeAnswers rt (Some e) qs todo rows acc = (rows', Inr tot)"
  using assms
proof (induction todo arbitrary: rows acc)
  case Nil
  then show ?case by simp
next
  case (Cons a rest)
  have rest: "\<And>rows acc. \<exists>rows' tot. gradeAnswers rt (Some e) qs rest rows acc = (rows', Inr tot)"
    by (rule Cons.IH) (simp add: Cons.prems)
  show ?case
  proof (cases "qs (an_questionId a)")
    case None
    then show ?thesis using rest by simp
  next
    case (Some q)
    show ?thesis
    proof (cases "\<not> an_isAnswered a \<or> an_selectedAnswer a = JNull")
      case True
      then show ?thesis using Some rest by simp
    next
      case False
      with Cons.prems [of a q] Some obtain b where
        b: "checkAnswer rt q (an_selectedAnswer a) = Inr b"
        by (cases "checkAnswer rt q (an_selectedAnswer a)") auto
      show ?thesis
        using False Some b rest by (cases b) (simp_all add: Let_def)
    qed
  qed
qed

lemma finalizeAttempt_gradable:
  assumes "findAttempt d i = Some att" "isActiveStatus (at_status att)"
    "exams d (at_examId att) = Some e" "answersGradable rt d i"
  shows "\<exists>d' r. finalizeAttempt rt now d i st = (d', Inr r)"
proof -
  have "\<exists>rows' tot.
          gradeAnswers rt (Some e) (questions d)
            (filter (\<lambda>a. an_attemptId a = i) (answers d)) (answers d)
            \<lparr>t_totalScore = 0, t_correctAnswers = 0, t_wrongAnswers = 0, t_skipped = 0\<rparr>
          = (rows', Inr tot)"
  proof (rule gradeAnswers_completes)
    fix a q
    assume "a \<in> set (filter (\<lambda>a. an_attemptId a = i) (answers d))"
      "questions d (an_questionId a) = Some q"
      "an_isAnswered a" "an_selectedAnswer a \<noteq> JNull"
    with assms(4) show "\<not> isl (checkAnswer rt q (an_selectedAnswer a))"
      by (auto simp add: answersGradable_def list_all_iff)
  qed
  then obtain rows' tot where
    "snd (gradeAnswers rt (Some e) (questions d)
            (filter (\<lambda>a. an_attemptId a = i) (answers d)) (answers d)
            \<lparr>t_totalScore = 0, t_correctAnswers = 0, t_wrongAnswers = 0, t_skipped = 0\<rparr>)
     = Inr tot"
    by auto
  from finalizeAttempt_graded [OF assms(1-3) this] show ?thesis .
qed

text \<open>What a returned result says about the call and about the row it stored.\<close>

lemma finalizeAttempt_Inr:
  assumes "finalizeAttempt rt now d i st = (d', Inr r)"
  shows "\<exists>att e rows tot a'.
    findAttempt d i = Some att \<and> isActiveStatus (at_status att) \<and>
    exams d (at_examId att) = Some e \<and>
    gradeAnswers rt (Some e) (questions d)
      (filter (\<lambda>a. an_attemptId a = i) (answers d)) (answers d)
      \<lparr>t_totalScore = 0, t_correctAnswers = 0, t_wrongAnswers = 0, t_skipped = 0\<rparr>
      = (rows, Inr tot) \<and>
    calculatePercentage (t_totalScore tot) (e_totalMarks e) = Some (r_percentage r) \<and>
    r_totalScore r = max 0 (t_totalScore tot) \<and>
    r_grade r = calculateGrade (r_percentage r) \<and>
    r_status r = (if st = ''auto_submitted'' then Auto_submitted else Submitted) \<and>
    findAttempt d' i = Some a' \<and>
    at_status a' = r_status r \<and>
    at_totalScore a' = r_totalScore r \<and>
    at_percentage a' = Some (r_percentage r) \<and>
    at_grade a' = Some (r_grade r) \<and>
    answers d' = rows \<and> exams d' = exams d \<and> questions d' = questions d"
proof -
  from assms obtain att where att: "findAttempt d i = Some att" "isActiveStatus (at_status att)"
    by (auto simp add: finalizeAttempt_def split: option.splits if_splits)
  from assms att obtain e where e: "exams d (at_examId att) = Some e"
    by (cases "exams d (at_examId att)")
       (auto simp add: finalizeAttempt_def Let_def split: prod.splits sum.splits)
  obtain rows res where g:
    "gradeAnswers rt (Some e) (questions d)
       (filter (\<lambda>a. an_attemptId a = i) (answers d)) (answers d)
       \<lparr>t_totalScore = 0, t_correctAnswers = 0, t_wrongAnswers = 0, t_skipped = 0\<rparr>
     = (rows, res)"
    by (cases "gradeAnswers rt (Some e) (questions d)
                 (filter (\<lambda>a. an_attemptId a = i) (answers d)) (answers d)
                 \<lparr>t_totalScore = 0, t_correctAnswers = 0, t_wrongAnswers = 0, t_skipped = 0\<rparr>")
  from assms att e g obtain tot where tot: "res = Inr tot"
    by (cases res) (auto simp add: finalizeAttempt_def Let_def)
  have fnd: "find (\<lambda>a. at_id a = i) (attempts d) = Some att"
    using att(1) by (simp add: findAttempt_def)
  obtain p where p: "calculatePercentage (t_totalScore tot) (e_totalMarks e) = Some p"
    using calculatePercentage_number [of "t_totalScore tot" "e_totalMarks e"] by auto
  show ?thesis
    using assms att e g tot fnd p
    by (auto simp add: finalizeAttempt_def Let_def findAttempt_def find_updateAttempt)
qed

text \<open>A finalized attempt is not finalized again: the call fails and writes nothing.\<close>

lemma finalizeAttempt_not_active:
  assumes "findAttempt d i = Some a" "\<not> isActiveStatus (at_status a)"
  shows "finalizeAttempt rt now d i st = (d, Inl (BadRequest ''Attempt already submitted''))"
  using assms by (simp add: finalizeAttempt_def)


lemma both_wrong_percentage: "calculatePercentage (- 4) 10 = Some (- 40)"
  by (simp add: calculatePercentage_def js_divide_def Math_round_def)

text \<open>Finalize on the scenario with both answers wrong, submitted at time 60000.\<close>

lemma both_wrong_finalized:
  "finalizeAttempt scenario_runtime 60000 both_wrong_db ''a1'' ''submitted''
   = (both_wrong_finalized_db, Inr both_wrong_result)"
  by (simp add: finalizeAttempt_def both_wrong_tables scenario_attempt_fields
        scenario_exam_fields both_wrong_graded isActiveStatus_def Let_def
        both_wrong_percentage calculateGrade_def
        updateAttempt_def both_wrong_finalized_db_def both_wrong_result_def)
     (simp add: both_wrong_db_def scenario_db_def scenario_attempt_def)

lemma both_wrong_finalized_attempt:
  "findAttempt both_wrong_finalized_db ''a1'' =
     Some ((scenario_attempt Submitted)
             \<lparr>at_submittedAt := Some 60000, at_totalScore := 0, at_percentage := Some (- 40),
              at_correctAnswers := 0, at_wrongAnswers := 2, at_skipped := 0,
              at_timeTaken := Some 60, at_grade := Some ''F'', at_passed := Some False\<rparr>)"
  by (simp add: both_wrong_finalized_db_def scenario_db_def findAttempt_def
        scenario_attempt_fields)



section \<open>Facts about saving after the deadline\<close>

lemma find_by_id:
  assumes "distinct (map at_id rows)" "find P rows = Some a" "\<And>x. P x \<Longrightarrow> at_id x = i"
  shows "find (\<lambda>x. at_id x = i) rows = Some a"
  using assms
proof (induction rows)
  case Nil
  then show ?case by simp
next
  case (Cons x xs)
  show ?case
  proof (cases "P x")
    case True
    with Cons.prems show ?thesis by simp
  next
    case False
    with Cons.prems have fa: "find P xs = Some a" by simp
    then have "a \<in> set xs" by (auto simp add: find_Some_iff)
    moreover from fa have "P a" by (auto simp add: find_Some_iff)
    then have "at_id a = i" by (rule Cons.prems(3))
    ultimately have "at_id x \<noteq> i" using Cons.prems(1) by (auto simp add: image_iff)
    with Cons fa show ?thesis by simp
  qed
qed

lemma findActiveAttempt_findAttempt:
  assumes "distinct (map at_id (attempts d))" "findActiveAttempt d i s = Some a"
  shows "findAttempt d i = Some a" "isActiveStatus (at_status a)" "at_studentId a = s"
proof -
  show "findAttempt d i = Some a"
    using assms unfolding findActiveAttempt_def findAttempt_def
    by (rule find_by_id) simp
  show "isActiveStatus (at_status a)" "at_studentId a = s"
    using assms(2) by (auto simp add: findActiveAttempt_def find_Some_iff)
qed

lemma saveAnswer_expired_graded:
  assumes "distinct (map at_id (attempts d))"
    "findActiveAttempt d attemptId studentId = Some att"
    "exams d (at_examId att) = Some e" "now > attemptEndTime rt att e"
    "answersGradable rt d attemptId"
  shows "\<exists>d'. saveAnswer rt now d attemptId questionId ans studentId timeSpent
                = (d', Inl (BadRequest ''Time expired. Exam has been auto-submitted.'')) \<and>
              map_option at_status (findAttempt d' attemptId) = Some Auto_submitted"
proof -
  note fa = findActiveAttempt_findAttempt [OF assms(1,2)]
  from finalizeAttempt_gradable [OF fa(1,2) assms(3,5)] obtain d' r where
    fin: "finalizeAttempt rt now d attemptId ''auto_submitted'' = (d', Inr r)" by blast
  from finalizeAttempt_Inr [OF fin]
  have "map_option at_status (findAttempt d' attemptId) = Some Auto_submitted" by auto
  moreover have "saveAnswer rt now d attemptId questionId ans studentId timeSpent
                = (d', Inl (BadRequest ''Time expired. Exam has been auto-submitted.''))"
    using assms(2,3,4) fin by (simp add: saveAnswer_def autoSubmitAttempt_def)
  ultimately show ?thesis by blast
qed

lemma saveAnswer_expired_refused:
  assumes "findActiveAttempt d attemptId studentId = Some att"
    "exams d (at_examId att) = Some e" "now > attemptEndTime rt att e"
  shows "isl (snd (saveAnswer rt now d attemptId questionId ans studentId timeSpent))"
  using assms by (simp add: saveAnswer_def split: prod.split sum.split)

lemma unkeyed_tables:
  "findActiveAttempt unkeyed_db ''a1'' ''s1'' = Some (scenario_attempt In_progress)"
  "findAttempt unkeyed_db ''a1'' = Some (scenario_attempt In_progress)"
  "exams unkeyed_db ''e1'' = Some scenario_exam"
  by (simp_all add: unkeyed_db_def scenario_db_def findActiveAttempt_def findAttempt_def
       scenario_attempt_def isActiveStatus_def)

lemma unkeyed_graded:
  "gradeAnswers scenario_runtime (Some scenario_exam) (questions unkeyed_db)
     (filter (\<lambda>a. an_attemptId a = ''a1'') (answers unkeyed_db)) (answers unkeyed_db)
     \<lparr>t_totalScore = 0, t_correctAnswers = 0, t_wrongAnswers = 0, t_skipped = 0\<rparr>
   = (answers unkeyed_db, Inl TypeError)"
  by (simp add: unkeyed_db_def scenario_db_def scenario_answer_def scenario_q3_def checkAnswer_def)




section \<open>Facts about the multi-select check\<close>

lemma distinct_length_subset_iff:
  assumes "distinct xs" "distinct ys"
  shows "(length xs = length ys \<and> set xs \<subseteq> set ys) = (set xs = set ys)"
proof
  assume h: "length xs = length ys \<and> set xs \<subseteq> set ys"
  then have "card (set xs) = card (set ys)"
    using assms by (simp add: distinct_card)
  with h show "set xs = set ys"
    by (simp add: card_subset_eq)
next
  assume h: "set xs = set ys"
  then have "card (set xs) = card (set ys)" by simp
  then have "length xs = length ys"
    using assms by (simp add: distinct_card)
  with h show "length xs = length ys \<and> set xs \<subseteq> set ys" by simp
qed

lemma checkAnswer_multiple_not_array:
  assumes "q_questionType q = ''multiple'' \<or> q_questionType q = ''multiple_select''"
    "q_options q \<noteq> []" "\<And>xs. v \<noteq> JArr xs"
  shows "checkAnswer rt q v = Inr False"
  using assms unfolding checkAnswer_def Let_def
  by (cases v) auto

text \<open>Every string of the selected array stays the string it is.\<close>

lemma selectedIdOf_strings:
  "allResults (map (selectedIdOf rt) (map JStr ids)) = Inr (map JStr ids)"
  by (induction ids) (simp_all add: selectedIdOf_def)

lemma checkAnswer_multiple_strings:
  assumes "q_questionType q = ''multiple'' \<or> q_questionType q = ''multiple_select''"
    "q_options q \<noteq> []"
  shows "checkAnswer rt q (JArr (map JStr ids))
         = Inr (length ids = length (map o_id (filter o_isCorrect (q_options q))) \<and>
                set ids \<subseteq> set (map o_id (filter o_isCorrect (q_options q))))"
  using assms unfolding checkAnswer_def Let_def
  by (auto simp add: selectedIdOf_strings list_all_iff simp del: map_map)

lemma checkAnswer_multiple_distinct:
  assumes "q_questionType q = ''multiple'' \<or> q_questionType q = ''multiple_select''"
    "q_options q \<noteq> []" "distinct (map o_id (q_options q))" "distinct ids"
  shows "checkAnswer rt q (JArr (map JStr ids))
         = Inr (set ids = set (map o_id (filter o_isCorrect (q_options q))))"
proof -
  have "distinct (map o_id (filter o_isCorrect (q_options q)))"
    using assms(3) by (rule distinct_map_filter)
  from distinct_length_subset_iff [OF assms(4) this]
  show ?thesis
    by (simp only: checkAnswer_multiple_strings [OF assms(1,2)])
qed

section \<open>Facts about the exam service\<close>

text \<open>On an active or completed exam, update and delete fail and write nothing: with the
  institution check's error for an educator of another institution, with BadRequest
  otherwise.\<close>

lemma updateExam_locked:
  assumes "exams d examId = Some e" "e_status e = Active \<or> e_status e = Completed"
  shows "updateExam d examId updateData userId userRole =
           (d, Inl (case institutionCheck d e userId userRole
                           ''You can only update exams in your institution'' of
                      Some err \<Rightarrow> err
                    | None \<Rightarrow> BadRequest ''Cannot update an active or completed exam''))"
  using assms by (auto simp add: updateExam_def split: option.splits)

lemma deleteExam_locked:
  assumes "exams d examId = Some e" "e_status e = Active \<or> e_status e = Completed"
  shows "deleteExam d examId userId userRole =
           (d, Inl (case institutionCheck d e userId userRole
                           ''You can only delete exams in your institution'' of
                      Some err \<Rightarrow> err
                    | None \<Rightarrow> BadRequest ''Cannot delete an active or completed exam''))"
  using assms by (auto simp add: deleteExam_def split: option.splits)

lemma active_exam_tables:
  "exams active_exam_db ''e1'' = Some scenario_exam"
  "e_status scenario_exam = Active"
  "institutionCheck active_exam_db scenario_exam ''t1'' Educator msg = None"
  by (simp_all add: active_exam_db_def scenario_exam_def institutionCheck_def truthyId_def scenario_teacher_def)

lemma active_exam_marks:
  "sumOfMarks (active_exam_db\<lparr>examQuestions := [(''e1'', ''q1''), (''e1'', ''q2''), (''e1'', ''q3'')]\<rparr>) ''e1'' = 15"
  "sumOfMarks (active_exam_db\<lparr>examQuestions := [(''e1'', ''q2'')]\<rparr>) ''e1'' = 5"
  by (simp_all add: sumOfMarks_def examQuestionList_def List.map_filter_def active_exam_db_def scenario_q1_def scenario_q2_def scenario_q3_def)

lemma publishExam_no_questions:
  assumes "exams d examId = Some e"
    "institutionCheck d e userId userRole ''You can only publish exams in your institution'' = None"
    "filter (\<lambda>(x, q). x = examId) (examQuestions d) = []"
  shows "publishExam d examId userId userRole
         = (d, Inl (BadRequest ''Cannot publish exam without questions''))"
  using assms by (simp add: publishExam_def)

lemma publishExam_with_questions:
  assumes "exams d examId = Some e"
    "institutionCheck d e userId userRole ''You can only publish exams in your institution'' = None"
    "filter (\<lambda>(x, q). x = examId) (examQuestions d) \<noteq> []"
  shows "publishExam d examId userId userRole
         = (d\<lparr>exams := (exams d)(examId \<mapsto> e\<lparr>e_status := Published\<rparr>),
              examCache := (examCache d)(examId := None)\<rparr>,
            Inr (e\<lparr>e_status := Published\<rparr>))"
  using assms by (simp add: publishExam_def setExamStatus_def)

lemma getExamById_absent:
  assumes "exams d examId = None"
  shows "getExamById d examId userId Student = (d, Inl (NotFound ''Exam not found''))"
  using assms by (simp add: getExamById_def)

lemma getExamById_hidden_status:
  assumes "exams d examId = Some e"
    "e_status e \<noteq> Published" "e_status e \<noteq> Active" "e_status e \<noteq> Completed"
  shows "getExamById d examId userId Student
         = (d, Inl (NotFound (''This exam is currently unavailable ('' @
                      statusName (e_status e) @
                      ''). Please ask your instructor to publish it.'')))"
  using assms by (simp add: getExamById_def)

lemma getExamById_other_institution:
  assumes "exams d examId = Some e"
    "e_status e = Published \<or> e_status e = Active \<or> e_status e = Completed"
    "users d userId = Some student" "isAssigned d examId e userId student"
    "truthyId (e_institutionId e)" "truthyId (u_institutionId student)"
    "e_institutionId e \<noteq> u_institutionId student"
  shows "getExamById d examId userId Student = (d, Inl (NotFound ''Exam not found''))"
  using assms by (auto simp add: getExamById_def)

lemma published_tables:
  "exams published_db ''e1'' = Some published_exam"
  "exams published_db ''e0'' = None"
  "e_status published_exam = Published"
  "users published_db ''s1'' = Some scenario_student"
  "\<not> isAssigned published_db ''e1'' published_exam ''s1'' scenario_student"
  by (simp_all add: published_db_def scenario_db_def published_exam_def scenario_exam_def
        isAssigned_def relatedIds_def idIncluded_def scenario_student_def)

section \<open>Facts about starting and resuming\<close>







lemma started_tables:
  "findActiveAttempt started_db ''a1'' ''s1'' = Some (scenario_attempt Started)"
  "exams started_db ''e1'' = Some scenario_exam"
  "examQuestionList started_db ''e1'' = [scenario_q1, scenario_q2]"
  by (simp_all add: started_db_def scenario_db_def findActiveAttempt_def scenario_attempt_def
        isActiveStatus_def examQuestionList_def List.map_filter_def scenario_question_fields)


text \<open>The answer rows of the started attempt are in the order \<open>startAttempt\<close> presented, and
  \<open>resumeAttempt\<close> returns them in that order beside the questions in the exam's order.\<close>

lemma started_resumed_answers:
  "\<exists>s2. resumeAttempt scenario_runtime 1000 started_db ''a1'' ''s1'' False = (started_db, Inr s2)
        \<and> map fq_id (s_questions s2) = [''q1'', ''q2'']
        \<and> map fst (s_answers s2) = [''q2'', ''q1'']"
  by (simp add: resumeAttempt_def started_tables scenario_attempt_fields attemptEndTime_def
        scenario_clock scenario_exam_fields Let_def enumerate_eq_zip scenario_question_fields)
     (simp add: started_db_def scenario_db_def blank_answer_def)

section \<open>Grading\<close>

text \<open>
  Claim C1. Finalize stores \<open>max(0, totalScore)\<close> as the total, and the claim has the
  percentage computed from that floored total, so that the scenario with negative marking
  (totalMarks 10, negativeMarkValue 2, both answers wrong) ends with totalScore 0 and
  percentage 0. The code computes the percentage from the running total before the floor is
  applied: on the scenario the stored and returned totalScore is 0, and the stored and
  returned percentage is \<open>-40\<close>.
\<close>

theorem finalize_both_wrong_percentage:
  "case finalizeAttempt scenario_runtime 60000 both_wrong_db ''a1'' ''submitted'' of
     (d', Inr r) \<Rightarrow>
       r_totalScore r = 0 \<and> r_percentage r = - 40 \<and> r_grade r = ''F'' \<and>
       map_option at_totalScore (findAttempt d' ''a1'') = Some 0 \<and>
       map_option at_percentage (findAttempt d' ''a1'') = Some (Some (- 40))
   | (d', Inl err) \<Rightarrow> False"
  by (simp add: both_wrong_finalized both_wrong_result_def both_wrong_finalized_attempt)

text \<open>
  Claim C2, as amended. The grade bands of \<open>calculateGrade\<close>: 90 gives A+, 89.99 gives A;
  D starts at 50, so that 50 gives D while 49.99, 40 and 39.99 all give F.
\<close>

theorem calculateGrade_bands:
  "calculateGrade 90 = ''A+'' \<and> calculateGrade (8999 / 100) = ''A'' \<and>
   calculateGrade 50 = ''D'' \<and> calculateGrade (4999 / 100) = ''F'' \<and>
   calculateGrade 40 = ''F'' \<and> calculateGrade (3999 / 100) = ''F''"
  by (simp add: calculateGrade_def)

text \<open>Claim C2 as stated fails at percentage 40: the grade there is F, not D.\<close>

theorem calculateGrade_40_counterexample:
  "calculateGrade 40 \<noteq> ''D''"
  by (simp add: calculateGrade_def)




section \<open>Finalizing twice\<close>

text \<open>
  Claim C3, as amended. After a finalize that returned a result, every further finalize of
  the same attempt fails with BadRequest \<open>Attempt already submitted\<close> and leaves the database
  as it is: nothing is graded again, and the stored totalScore, percentage and grade remain
  the ones the first call returned.
\<close>

theorem finalize_twice_rejected:
  assumes "finalizeAttempt rt now d attemptId submitType = (d', Inr r)"
  shows "finalizeAttempt rt now' d' attemptId submitType'
           = (d', Inl (BadRequest ''Attempt already submitted'')) \<and>
         map_option at_totalScore (findAttempt d' attemptId) = Some (r_totalScore r) \<and>
         map_option at_percentage (findAttempt d' attemptId) = Some (Some (r_percentage r)) \<and>
         map_option at_grade (findAttempt d' attemptId) = Some (Some (r_grade r))"
proof -
  from finalizeAttempt_Inr [OF assms] obtain a' where a':
    "findAttempt d' attemptId = Some a'"
    "at_status a' = r_status r"
    "r_status r = (if submitType = ''auto_submitted'' then Auto_submitted else Submitted)"
    "at_totalScore a' = r_totalScore r" "at_percentage a' = Some (r_percentage r)"
    "at_grade a' = Some (r_grade r)"
    by blast
  have "\<not> isActiveStatus (at_status a')"
    using a'(2,3) by (simp add: isActiveStatus_def)
  from finalizeAttempt_not_active [OF a'(1) this] a' show ?thesis by simp
qed

text \<open>Witness for C3: the scenario with both answers wrong, finalized at 60000 and again
  at 61000.\<close>

theorem finalize_twice_rejected_witness:
  "finalizeAttempt scenario_runtime 60000 both_wrong_db ''a1'' ''submitted''
     = (both_wrong_finalized_db, Inr both_wrong_result) \<and>
   finalizeAttempt scenario_runtime 61000 both_wrong_finalized_db ''a1'' ''submitted''
     = (both_wrong_finalized_db, Inl (BadRequest ''Attempt already submitted''))"
  using finalize_twice_rejected [OF both_wrong_finalized, of 61000 "''submitted''"]
        both_wrong_finalized
  by simp

text \<open>Claim C3 as stated has the second call return the same result as the first. On the
  scenario the second call returns the error, not the first call's result.\<close>

theorem finalize_twice_counterexample:
  "snd (finalizeAttempt scenario_runtime 61000
          (fst (finalizeAttempt scenario_runtime 60000 both_wrong_db ''a1'' ''submitted''))
          ''a1'' ''submitted'')
   \<noteq> snd (finalizeAttempt scenario_runtime 60000 both_wrong_db ''a1'' ''submitted'')"
proof -
  have "finalizeAttempt scenario_runtime 61000 both_wrong_finalized_db ''a1'' ''submitted''
     = (both_wrong_finalized_db, Inl (BadRequest ''Attempt already submitted''))"
    using both_wrong_finalized_attempt
    by (rule finalizeAttempt_not_active) (simp add: scenario_attempt_fields isActiveStatus_def)
  then show ?thesis by (simp add: both_wrong_finalized)
qed

section \<open>Saving after the deadline\<close>

text \<open>
  Claim C4. A save after the deadline is to finalize the attempt as \<open>auto_submitted\<close> and
  fail with BadRequest. The code does so whenever grading finishes
  (\<open>saveAnswer_expired_graded\<close>), and it never accepts the save
  (\<open>saveAnswer_expired_refused\<close>). But when the attempt holds an answer to a short-answer
  question without an answer key, the grading inside the auto-submit raises a TypeError:
  the save at 31 minutes fails with that error instead of BadRequest, and the attempt stays
  \<open>in_progress\<close>.
\<close>

theorem saveAnswer_expired_unkeyed:
  "saveAnswer scenario_runtime 1860000 unkeyed_db ''a1'' ''q3'' (JStr ''rome'') ''s1'' 0
     = (unkeyed_db, Inl TypeError) \<and>
   map_option at_status (findAttempt unkeyed_db ''a1'') = Some In_progress"
  by (simp add: saveAnswer_def unkeyed_tables scenario_attempt_fields attemptEndTime_def
        scenario_clock
        scenario_exam_fields autoSubmitAttempt_def finalizeAttempt_def isActiveStatus_def
        unkeyed_graded)

section \<open>The multi-select check\<close>

text \<open>
  Claim C5. A multi-select answer is to be correct exactly when it equals, as a set, the set
  of the option ids flagged correct. The code compares the lengths and tests that every
  selected id is a correct one, which is set equality for an array without repetitions
  (\<open>checkAnswer_multiple_distinct\<close>). With a repeated id it is not: for the correct options
  \<open>m1\<close> and \<open>m2\<close>, the answer \<open>[m1, m1]\<close> is judged correct.
\<close>

theorem checkAnswer_repeated_id:
  "checkAnswer scenario_runtime scenario_multi (JArr [JStr ''m1'', JStr ''m1'']) = Inr True \<and>
   set [''m1'', ''m1''] \<noteq> set (map o_id (filter o_isCorrect (q_options scenario_multi)))"
  by (simp add: checkAnswer_def scenario_multi_def selectedIdOf_def)

section \<open>Edits of a running exam\<close>

text \<open>
  Claim C6. Every edit of an exam whose status is active or completed is to fail and leave
  the exam as it is. \<open>updateExam\<close> and \<open>deleteExam\<close> test the status and do so
  (\<open>updateExam_locked\<close>, \<open>deleteExam_locked\<close>); \<open>addQuestionsToExam\<close> and
  \<open>removeQuestionsFromExam\<close> do not test it. On the active exam of the scenario an educator
  of the exam's institution adds question \<open>q3\<close>, and removes question \<open>q1\<close>: both calls
  succeed, change the question set and rewrite totalMarks (to 15 and to 5).
\<close>

theorem addQuestions_active_exam:
  "e_status scenario_exam = Active \<and>
   (case addQuestionsToExam active_exam_db ''e1'' [''q3''] ''t1'' Educator of
      (d', Inr e') \<Rightarrow>
         examQuestions d' = [(''e1'', ''q1''), (''e1'', ''q2''), (''e1'', ''q3'')] \<and>
         e_totalMarks e' = 15 \<and> exams d' ''e1'' = Some e' \<and> e_status e' = Active
    | (d', Inl err) \<Rightarrow> False) \<and>
   (case removeQuestionsFromExam active_exam_db ''e1'' [''q1''] ''t1'' Educator of
      (d', Inr e') \<Rightarrow>
         examQuestions d' = [(''e1'', ''q2'')] \<and>
         e_totalMarks e' = 5 \<and> exams d' ''e1'' = Some e' \<and> e_status e' = Active
    | (d', Inl err) \<Rightarrow> False)"
proof -
  have q: "questions active_exam_db ''q3'' \<noteq> None"
    "examQuestions active_exam_db = [(''e1'', ''q1''), (''e1'', ''q2'')]"
    by (simp_all add: active_exam_db_def)
  show ?thesis
    by (simp add: addQuestionsToExam_def removeQuestionsFromExam_def active_exam_tables q Let_def active_exam_marks)
qed

section \<open>Publishing\<close>

text \<open>
  Claim C7. Publishing is to succeed only from \<open>draft\<close>. \<open>publishExam\<close> refuses an exam
  without questions (\<open>publishExam_no_questions\<close>) but never reads the current status
  (\<open>publishExam_with_questions\<close>): the completed exam of the scenario, which has questions,
  is published again.
\<close>

theorem publishExam_completed_exam:
  "e_status completed_exam = Completed \<and>
   (case publishExam completed_exam_db ''e1'' ''t1'' Educator of
      (d', Inr e') \<Rightarrow> e_status e' = Published \<and> exams d' ''e1'' = Some e'
    | (d', Inl err) \<Rightarrow> False)"
proof -
  have "exams completed_exam_db ''e1'' = Some completed_exam"
    by (simp add: completed_exam_db_def scenario_db_def)
  moreover have "institutionCheck completed_exam_db completed_exam ''t1'' Educator
                   ''You can only publish exams in your institution'' = None"
    by (simp add: institutionCheck_def completed_exam_db_def scenario_db_def completed_exam_def
          scenario_exam_def scenario_teacher_def truthyId_def)
  moreover have "filter (\<lambda>(x, q). x = ''e1'') (examQuestions completed_exam_db) \<noteq> []"
    by (simp add: completed_exam_db_def scenario_db_def)
  ultimately show ?thesis
    by (simp add: publishExam_with_questions) (simp add: completed_exam_def)
qed

section \<open>Viewing an exam as a student\<close>

text \<open>
  Claim C8, as amended. A student who asks for an exam that exists, has a visible status and
  is not assigned to them gets Forbidden \<open>This exam is not assigned to you\<close>, and nothing is
  written. (An absent exam gives NotFound, \<open>getExamById_absent\<close>, and so do an exam whose
  status is not published, active or completed, \<open>getExamById_hidden_status\<close>, and an
  assigned exam of another institution, \<open>getExamById_other_institution\<close>.)
\<close>

theorem getExamById_unassigned:
  assumes "exams d examId = Some e"
    "e_status e = Published \<or> e_status e = Active \<or> e_status e = Completed"
    "users d userId = Some student" "\<not> isAssigned d examId e userId student"
  shows "getExamById d examId userId Student
         = (d, Inl (Forbidden ''This exam is not assigned to you''))"
  using assms by (auto simp add: getExamById_def)

text \<open>Witness for C8: student \<open>s1\<close> of section \<open>sec2\<close> and the published exam, which is
  assigned to section \<open>sec1\<close>.\<close>

theorem getExamById_unassigned_witness:
  "exams published_db ''e1'' = Some published_exam \<and>
   (e_status published_exam = Published \<or> e_status published_exam = Active \<or>
    e_status published_exam = Completed) \<and>
   users published_db ''s1'' = Some scenario_student \<and>
   \<not> isAssigned published_db ''e1'' published_exam ''s1'' scenario_student \<and>
   getExamById published_db ''e1'' ''s1'' Student
     = (published_db, Inl (Forbidden ''This exam is not assigned to you''))"
  using getExamById_unassigned [OF published_tables(1) _ published_tables(4,5)]
        published_tables
  by simp

text \<open>Claim C8 as stated has the unassigned exam answered like an absent one. The
  unassigned exam \<open>e1\<close> gives Forbidden, the absent exam \<open>e0\<close> gives NotFound.\<close>

theorem getExamById_unassigned_counterexample:
  "snd (getExamById published_db ''e1'' ''s1'' Student)
     = Inl (Forbidden ''This exam is not assigned to you'') \<and>
   snd (getExamById published_db ''e0'' ''s1'' Student) = Inl (NotFound ''Exam not found'')"
  by (simp add: getExamById_def published_tables)

section \<open>The order of the questions\<close>




end
